theory Spec2Isabelle
  imports Complex_Main "HOL-Library.Log_Nat" "HOL-Library.Sublist"
begin

section \<open>Go values used by the service package\<close>

subsection \<open>float64 arithmetic on the values the service computes\<close>

text \<open>
  \<^verbatim>\<open>ProgressInfo.Percentage\<close> and \<^verbatim>\<open>ProgressTracker.percentage\<close> are Go \<^verbatim>\<open>float64\<close>
  values. Every float64 the parser computes is the correctly rounded result (IEEE 754
  binary64, round to nearest, ties to even) of a conversion from \<^verbatim>\<open>int\<close>, a division
  or a multiplication. The operands are integers of at most 64 bits and the constant 100,
  so every result is zero or lies between \<open>2 ^ -63\<close> and \<open>2 ^ 70\<close>: the exponent range of
  binary64 is never left, and rounding to 53 significant bits is all that happens.
  A finite float64 is represented by the rational number it denotes.
\<close>

type_synonym float64 = rat

definition round_half_even :: "rat \<Rightarrow> int" where
  "round_half_even x =
     (let f = \<lfloor>x\<rfloor>; r = x - of_int f
      in if r < 1 / 2 then f
         else if 1 / 2 < r then f + 1
         else if even f then f else f + 1)"

definition pow2 :: "int \<Rightarrow> rat" where
  "pow2 e = (if 0 \<le> e then 2 ^ nat e else 1 / 2 ^ nat (- e))"

text \<open>The binary exponent \<open>e\<close> of a positive rational: \<open>2 ^ e \<le> q < 2 ^ (e + 1)\<close>.\<close>

definition ilog2 :: "rat \<Rightarrow> int" where
  "ilog2 q =
     (let (a, b) = quotient_of q;
          k = bitlen a - bitlen b
      in if pow2 k \<le> q then k else k - 1)"

definition f64_round :: "rat \<Rightarrow> float64" where
  "f64_round q =
     (if q = 0 then 0
      else let a = \<bar>q\<bar>; e = ilog2 a;
               m = round_half_even (a * pow2 (52 - e))
           in sgn q * of_int m * pow2 (e - 52))"

definition f64_of_int :: "int \<Rightarrow> float64" where
  "f64_of_int i = f64_round (of_int i)"

text \<open>The division is only ever reached behind the guard \<^verbatim>\<open>total > 0\<close>.\<close>

definition f64_div :: "float64 \<Rightarrow> float64 \<Rightarrow> float64" where
  "f64_div a b = f64_round (a / b)"

definition f64_mul :: "float64 \<Rightarrow> float64 \<Rightarrow> float64" where
  "f64_mul a b = f64_round (a * b)"

subsection \<open>strconv\<close>

text \<open>
  \<^verbatim>\<open>strconv.Atoi\<close> and \<^verbatim>\<open>strconv.ParseInt(s, 10, 64)\<close>: an optional sign followed by
  decimal digits; a syntax error or a value outside the signed 64-bit range is an error
  (\<open>None\<close>). \<^verbatim>\<open>int\<close> is taken to be 64 bits wide, as on every 64-bit Go platform.
\<close>

definition is_digit :: "char \<Rightarrow> bool" where
  "is_digit c = (let n = (of_char c :: nat) in 48 \<le> n \<and> n \<le> 57)"

definition parse_digits :: "string \<Rightarrow> int" where
  "parse_digits s = foldl (\<lambda>a c. 10 * a + (int (of_char c) - 48)) 0 s"

definition parse_unsigned :: "string \<Rightarrow> int option" where
  "parse_unsigned s =
     (if s = [] \<or> \<not> list_all is_digit s then None else Some (parse_digits s))"

definition ParseInt64 :: "string \<Rightarrow> int option" where
  "ParseInt64 s =
     (case s of
        [] \<Rightarrow> None
      | c # cs \<Rightarrow>
          (if c = CHR ''-'' then
             (case parse_unsigned cs of
                None \<Rightarrow> None
              | Some v \<Rightarrow> if v \<le> 9223372036854775808 then Some (- v) else None)
           else
             (case parse_unsigned (if c = CHR ''+'' then cs else s) of
                None \<Rightarrow> None
              | Some v \<Rightarrow> if v \<le> 9223372036854775807 then Some v else None)))"

definition Atoi :: "string \<Rightarrow> int option" where
  "Atoi s = ParseInt64 s"

subsection \<open>The regular expressions of \<^verbatim>\<open>parseProgress\<close>\<close>

text \<open>
  The four expressions are sequences of literals, \<^verbatim>\<open>c+\<close> for a character class \<^verbatim>\<open>c\<close>
  (\<^verbatim>\<open>\s\<close>, \<^verbatim>\<open>\w\<close>, \<^verbatim>\<open>\d\<close>, \<^verbatim>\<open>.\<close>), capturing groups around one such repetition, and one
  capturing alternation of literals; one expression starts with \<^verbatim>\<open>^\<close>.
  Go's \<^verbatim>\<open>regexp\<close> returns the leftmost match and, among the matches starting there, the one
  a backtracking search finds first; the matcher below is that search: greedy repetitions
  try the longest run first, alternatives are tried in the order written.
  Strings are sequences of bytes; the classes are RE2's ASCII classes, and \<^verbatim>\<open>.\<close> is
  every byte but the line feed (on valid UTF-8 this captures the same bytes as matching
  code points).
\<close>

datatype cls = Space | Word | Digit | AnyChar

fun in_cls :: "cls \<Rightarrow> char \<Rightarrow> bool" where
  "in_cls Space c = (c \<in> set [CHR 0x09, CHR 0x0A, CHR 0x0C, CHR 0x0D, CHR 0x20])"
| "in_cls Word c =
     (let n = (of_char c :: nat)
      in (48 \<le> n \<and> n \<le> 57) \<or> (65 \<le> n \<and> n \<le> 90) \<or> n = 95 \<or> (97 \<le> n \<and> n \<le> 122))"
| "in_cls Digit c = is_digit c"
| "in_cls AnyChar c = (c \<noteq> CHR 0x0A)"

datatype re_item =
    Lit string
  | Plus cls
  | GroupPlus cls
  | GroupAlt "string list"

record regexp =
  anchored :: bool
  items :: "re_item list"

fun first_some :: "('a \<Rightarrow> 'b option) \<Rightarrow> 'a list \<Rightarrow> 'b option" where
  "first_some f [] = None"
| "first_some f (x # xs) = (case f x of Some y \<Rightarrow> Some y | None \<Rightarrow> first_some f xs)"

text \<open>The lengths a greedy \<^verbatim>\<open>c+\<close> tries at the head of \<open>s\<close>: the longest run first, down to 1.\<close>

definition run_lengths :: "cls \<Rightarrow> string \<Rightarrow> nat list" where
  "run_lengths c s = rev [1 ..< Suc (length (takeWhile (in_cls c) s))]"

text \<open>The captured groups of the first match of the items at the head of \<open>s\<close>.\<close>

fun match_here :: "re_item list \<Rightarrow> string \<Rightarrow> string list option" where
  "match_here [] s = Some []"
| "match_here (Lit l # r) s =
     (if take (length l) s = l then match_here r (drop (length l) s) else None)"
| "match_here (Plus c # r) s =
     first_some (\<lambda>k. match_here r (drop k s)) (run_lengths c s)"
| "match_here (GroupPlus c # r) s =
     first_some (\<lambda>k. map_option (\<lambda>caps. take k s # caps) (match_here r (drop k s)))
       (run_lengths c s)"
| "match_here (GroupAlt ls # r) s =
     first_some
       (\<lambda>l. if take (length l) s = l
            then map_option (\<lambda>caps. l # caps) (match_here r (drop (length l) s))
            else None) ls"

fun search :: "re_item list \<Rightarrow> string \<Rightarrow> string list option" where
  "search its [] = match_here its []"
| "search its (c # cs) =
     (case match_here its (c # cs) of Some m \<Rightarrow> Some m | None \<Rightarrow> search its cs)"

text \<open>
  \<^verbatim>\<open>FindStringSubmatch\<close>: \<open>None\<close> is Go's \<^verbatim>\<open>nil\<close>; \<open>Some [g1, ..., gn]\<close> holds
  \<^verbatim>\<open>matches[1]\<close> to \<^verbatim>\<open>matches[n]\<close> (the handlers never read \<^verbatim>\<open>matches[0]\<close>).
\<close>

definition FindStringSubmatch :: "regexp \<Rightarrow> string \<Rightarrow> string list option" where
  "FindStringSubmatch re s =
     (if anchored re then match_here (items re) s else search (items re) s)"

section \<open>LineClassifier: \<^verbatim>\<open>parseProgress\<close> (internal/service/ora2pg.go)\<close>

record ProgressInfo =
  CurrentStep :: string
  TotalSteps :: int
  CompletedSteps :: int
  Percentage :: float64
  ProcessedRows :: int
  TotalRows :: int
  Message :: string

text \<open>\<^verbatim>\<open>&ProgressInfo{}\<close>: every field at its zero value.\<close>

definition ProgressInfo_zero :: ProgressInfo where
  "ProgressInfo_zero =
     \<lparr>CurrentStep = [], TotalSteps = 0, CompletedSteps = 0, Percentage = 0,
      ProcessedRows = 0, TotalRows = 0, Message = []\<rparr>"

text \<open>\<^verbatim>\<open>Processing\s+(\w+):\s+(\w+)\s+\((\d+)/(\d+)\)\<close>\<close>

definition re_processing :: regexp where
  "re_processing =
     \<lparr>anchored = False,
      items = [Lit ''Processing'', Plus Space, GroupPlus Word, Lit '':'', Plus Space,
               GroupPlus Word, Plus Space, Lit ''('', GroupPlus Digit, Lit ''/'',
               GroupPlus Digit, Lit '')'']\<rparr>"

text \<open>\<^verbatim>\<open>Exported\s+(\d+)\s+rows\<close>\<close>

definition re_exported :: regexp where
  "re_exported =
     \<lparr>anchored = False,
      items = [Lit ''Exported'', Plus Space, GroupPlus Digit, Plus Space, Lit ''rows'']\<rparr>"

text \<open>\<^verbatim>\<open>Total\s+rows:\s+(\d+)\<close>\<close>

definition re_total_rows :: regexp where
  "re_total_rows =
     \<lparr>anchored = False,
      items = [Lit ''Total'', Plus Space, Lit ''rows:'', Plus Space, GroupPlus Digit]\<rparr>"

text \<open>\<^verbatim>\<open>^(INFO|WARNING|ERROR):\s+(.+)\<close>\<close>

definition re_status :: regexp where
  "re_status =
     \<lparr>anchored = True,
      items = [GroupAlt [''INFO'', ''WARNING'', ''ERROR''], Lit '':'', Plus Space,
               GroupPlus AnyChar]\<rparr>"

text \<open>The UTF-8 bytes of the Chinese words in the two format strings.\<close>

definition zh_processing :: string where
  "zh_processing = [CHR 0xE5, CHR 0xA4, CHR 0x84, CHR 0xE7, CHR 0x90, CHR 0x86]"

definition zh_exported :: string where
  "zh_exported =
     [CHR 0xE5, CHR 0xB7, CHR 0xB2, CHR 0xE5, CHR 0xAF, CHR 0xBC, CHR 0xE5, CHR 0x87, CHR 0xBA]"

definition zh_rows :: string where
  "zh_rows =
     [CHR 0xE8, CHR 0xA1, CHR 0x8C, CHR 0xE6, CHR 0x95, CHR 0xB0, CHR 0xE6, CHR 0x8D, CHR 0xAE]"

text \<open>
  The four handlers, in the order of the source. A handler is only called with the groups
  of its own expression, so the last case of each is never reached.
\<close>

definition handle_processing :: "string list \<Rightarrow> ProgressInfo \<Rightarrow> ProgressInfo" where
  "handle_processing matches progress =
     (case matches of
        [kind, name, c, t] \<Rightarrow>
          (let p1 = progress\<lparr>CurrentStep := zh_processing @ kind @ '': '' @ name\<rparr>;
               p2 = (case Atoi c of
                       Some completed \<Rightarrow> p1\<lparr>CompletedSteps := completed\<rparr>
                     | None \<Rightarrow> p1)
           in case Atoi t of
                Some tot \<Rightarrow>
                  (let p3 = p2\<lparr>TotalSteps := tot\<rparr>
                   in if tot > 0
                      then p3\<lparr>Percentage :=
                             f64_mul (f64_div (f64_of_int (CompletedSteps p3)) (f64_of_int tot))
                               100\<rparr>
                      else p3)
              | None \<Rightarrow> p2)
      | _ \<Rightarrow> progress)"

definition handle_exported :: "string list \<Rightarrow> ProgressInfo \<Rightarrow> ProgressInfo" where
  "handle_exported matches progress =
     (case matches of
        [n] \<Rightarrow>
          (let p1 = (case ParseInt64 n of
                       Some rows \<Rightarrow> progress\<lparr>ProcessedRows := rows\<rparr>
                     | None \<Rightarrow> progress)
           in p1\<lparr>Message := zh_exported @ '' '' @ n @ '' '' @ zh_rows\<rparr>)
      | _ \<Rightarrow> progress)"

definition handle_total_rows :: "string list \<Rightarrow> ProgressInfo \<Rightarrow> ProgressInfo" where
  "handle_total_rows matches progress =
     (case matches of
        [n] \<Rightarrow>
          (case ParseInt64 n of
             Some rows \<Rightarrow> progress\<lparr>TotalRows := rows\<rparr>
           | None \<Rightarrow> progress)
      | _ \<Rightarrow> progress)"

definition handle_status :: "string list \<Rightarrow> ProgressInfo \<Rightarrow> ProgressInfo" where
  "handle_status matches progress =
     (case matches of
        [level, msg] \<Rightarrow> progress\<lparr>Message := msg\<rparr>
      | _ \<Rightarrow> progress)"

definition patterns :: "(regexp \<times> (string list \<Rightarrow> ProgressInfo \<Rightarrow> ProgressInfo)) list" where
  "patterns =
     [(re_processing, handle_processing),
      (re_exported, handle_exported),
      (re_total_rows, handle_total_rows),
      (re_status, handle_status)]"

text \<open>The \<^verbatim>\<open>for ... range patterns\<close> loop with its \<^verbatim>\<open>break\<close>.\<close>

fun apply_patterns ::
  "(regexp \<times> (string list \<Rightarrow> ProgressInfo \<Rightarrow> ProgressInfo)) list \<Rightarrow> string \<Rightarrow>
   ProgressInfo \<Rightarrow> ProgressInfo" where
  "apply_patterns [] line progress = progress"
| "apply_patterns (pat # rest) line progress =
     (case FindStringSubmatch (fst pat) line of
        Some matches \<Rightarrow> snd pat matches progress
      | None \<Rightarrow> apply_patterns rest line progress)"

text \<open>\<^verbatim>\<open>progress\<close> is a pointer: \<open>None\<close> is \<^verbatim>\<open>nil\<close>, for which the function returns at once.\<close>

definition parseProgress :: "string \<Rightarrow> ProgressInfo option \<Rightarrow> ProgressInfo option" where
  "parseProgress line progress =
     (case progress of
        None \<Rightarrow> None
      | Some p \<Rightarrow> Some (apply_patterns patterns line p))"

text \<open>
  The progress model after a sequence of lines: the calls one \<^verbatim>\<open>Execute\<close> makes on its
  \<^verbatim>\<open>result.Progress\<close>, one per line read.
\<close>

fun parse_all :: "string list \<Rightarrow> ProgressInfo option \<Rightarrow> ProgressInfo option" where
  "parse_all [] progress = progress"
| "parse_all (l # ls) progress = parse_all ls (parseProgress l progress)"

section \<open>ProcessSupervisor: \<^verbatim>\<open>Execute\<close> (internal/service/ora2pg.go)\<close>

subsection \<open>Outcomes, errors and data\<close>

text \<open>
  A Go call returns, panics, or never returns (a goroutine blocked for ever on a channel).
\<close>

datatype 'a outcome = Returns 'a | Panic | Blocked

type_synonym os_error = string
type_synonym time = nat
type_synonym MigrationType = string

datatype ctx_error = Canceled | DeadlineExceeded

text \<open>
  The error values the service builds. \<open>ExitError c\<close> is an \<^verbatim>\<open>*exec.ExitError\<close> whose
  \<^verbatim>\<open>ExitCode()\<close> is \<open>c\<close>; \<open>OSError\<close> is any other error of the operating system or of
  \<^verbatim>\<open>os/exec\<close>.
\<close>

datatype error =
    ORA2PG_NOT_FOUND
  | FileNotFound string
  | CreateFailed string error
  | EmptyDirPath
  | NotADirectory string
  | MkdirFailed string os_error
  | TEMPLATE_NOT_FOUND
  | StdoutPipeFailed os_error
  | StderrPipeFailed os_error
  | StartFailed os_error
  | ExecutionTimedOut
  | ContextError ctx_error
  | ExitError int
  | OSError os_error

datatype ExecutionStatus =
  StatusPending | StatusRunning | StatusCompleted | StatusFailed | StatusCancelled

record ExecutionResult =
  Status :: ExecutionStatus
  StartTime :: time
  EndTime :: time
  Duration :: int
  ExitCode :: int
  Output :: string
  ErrorOutput :: string
  Progress :: "ProgressInfo option"
  Error :: "error option"

record ExecutionOptions =
  ConfigFile :: string
  OutputDir :: string
  LogFile :: string
  DryRun :: bool
  Verbose :: bool
  Timeout :: int
  Environment :: "(string \<times> string) list"
  WorkingDir :: string

subsection \<open>What the operating system and the child process answer\<close>

text \<open>\<^verbatim>\<open>os.Stat\<close>: a file, a directory, "does not exist", or another error.\<close>

datatype stat_result = StatFile | StatDir | StatNotExist | StatError

text \<open>
  How the child ends, as \<^verbatim>\<open>cmd.Wait\<close> sees it: it exited with a status, it was ended by
  a signal (also the kill of \<^verbatim>\<open>exec.CommandContext\<close>), or \<^verbatim>\<open>Wait\<close> itself failed.
  The child is taken to end: a child that runs for ever while no timeout is set is not
  an input of the model.
\<close>

datatype proc_exit = Exited nat | Signaled | WaitFailed os_error

text \<open>Which case of the \<^verbatim>\<open>select\<close> in \<^verbatim>\<open>executeCommand\<close> fires.\<close>

datatype race_event = CtxDone ctx_error | TimerFired | ProcessExited

datatype stream = Stdout | Stderr

text \<open>
  One field per question \<^verbatim>\<open>Execute\<close> asks its environment, in the order it asks them.
  \<open>scanned\<close> holds the lines the two scanners deliver, in the order in which the two
  reader goroutines take them up.
\<close>

record exec_env =
  lookPath_found :: bool
  config_stat :: stat_result
  outdir_stat :: stat_result
  outdir_mkdir :: "os_error option"
  logdir :: string
  logdir_stat :: stat_result
  logdir_mkdir :: "os_error option"
  stdout_pipe :: "os_error option"
  stderr_pipe :: "os_error option"
  start :: "os_error option"
  scanned :: "(stream \<times> string) list"
  race :: race_event
  exit :: proc_exit
  t_start :: time
  t_end :: time

subsection \<open>File utilities (internal/utils/file.go)\<close>

text \<open>
  \<^verbatim>\<open>FileExists\<close> calls \<^verbatim>\<open>info.IsDir()\<close> whenever the error of \<^verbatim>\<open>os.Stat\<close> is not
  "does not exist"; for another error \<^verbatim>\<open>info\<close> is nil and the call panics.
\<close>

definition FileExists :: "stat_result \<Rightarrow> string \<Rightarrow> bool outcome" where
  "FileExists st filePath =
     (if filePath = [] then Returns False
      else case st of
             StatNotExist \<Rightarrow> Returns False
           | StatFile \<Rightarrow> Returns True
           | StatDir \<Rightarrow> Returns False
           | StatError \<Rightarrow> Panic)"

text \<open>\<^verbatim>\<open>DirExists\<close> has the same shape, and panics on the same answer.\<close>

definition DirExists :: "stat_result \<Rightarrow> string \<Rightarrow> bool outcome" where
  "DirExists st dirPath =
     (if dirPath = [] then Returns False
      else case st of
             StatNotExist \<Rightarrow> Returns False
           | StatFile \<Rightarrow> Returns False
           | StatDir \<Rightarrow> Returns True
           | StatError \<Rightarrow> Panic)"

definition EnsureDir :: "stat_result \<Rightarrow> os_error option \<Rightarrow> string \<Rightarrow> error option" where
  "EnsureDir st mk dirPath =
     (if dirPath = [] then Some EmptyDirPath
      else case st of
             StatDir \<Rightarrow> None
           | StatFile \<Rightarrow> Some (NotADirectory dirPath)
           | _ \<Rightarrow> (case mk of Some e \<Rightarrow> Some (MkdirFailed dirPath e) | None \<Rightarrow> None))"

subsection \<open>The steps of \<^verbatim>\<open>Execute\<close>\<close>

definition validateOra2pgTool :: "exec_env \<Rightarrow> error option" where
  "validateOra2pgTool env = (if lookPath_found env then None else Some ORA2PG_NOT_FOUND)"

definition buildCommandArgs ::
  "stat_result \<Rightarrow> MigrationType \<Rightarrow> ExecutionOptions \<Rightarrow> (error + string list) outcome" where
  "buildCommandArgs st migrationType options =
     (let args0 = [''ora2pg''];
          after_config =
            (if ConfigFile options \<noteq> [] then
               (case FileExists st (ConfigFile options) of
                  Returns ok \<Rightarrow>
                    if \<not> ok then Returns (Inl (FileNotFound (ConfigFile options)))
                    else Returns (Inr (args0 @ [''-c'', ConfigFile options]))
                | Panic \<Rightarrow> Panic
                | Blocked \<Rightarrow> Blocked)
             else Returns (Inr args0))
      in case after_config of
           Returns (Inr args1) \<Rightarrow>
             (let args2 = args1 @ [''-t'', migrationType];
                  args3 = (if OutputDir options \<noteq> [] then args2 @ [''-o'', OutputDir options]
                           else args2);
                  args4 = (if Verbose options then args3 @ [''-v''] else args3);
                  args5 = (if DryRun options then args4 @ [''-n''] else args4);
                  args6 = (if LogFile options \<noteq> [] then args5 @ [''-l'', LogFile options]
                           else args5)
              in Returns (Inr args6))
         | other \<Rightarrow> other)"

definition prepareExecutionEnvironment :: "exec_env \<Rightarrow> ExecutionOptions \<Rightarrow> error option" where
  "prepareExecutionEnvironment env options =
     (case (if OutputDir options \<noteq> []
            then (case EnsureDir (outdir_stat env) (outdir_mkdir env) (OutputDir options) of
                    Some err \<Rightarrow> Some (CreateFailed (OutputDir options) err)
                  | None \<Rightarrow> None)
            else None) of
        Some err \<Rightarrow> Some err
      | None \<Rightarrow>
          (if LogFile options \<noteq> []
           then (case EnsureDir (logdir_stat env) (logdir_mkdir env) (logdir env) of
                   Some err \<Rightarrow> Some (CreateFailed (logdir env) err)
                 | None \<Rightarrow> None)
           else None))"

text \<open>\<^verbatim>\<open>cmd.Wait()\<close>: nil for exit status 0, an \<^verbatim>\<open>*exec.ExitError\<close> for any other end of the
  process (its \<^verbatim>\<open>ExitCode()\<close> is the status, or -1 after a signal).\<close>

definition cmd_Wait :: "proc_exit \<Rightarrow> error option" where
  "cmd_Wait pe =
     (case pe of
        Exited n \<Rightarrow> if n = 0 then None else Some (ExitError (int n))
      | Signaled \<Rightarrow> Some (ExitError (- 1))
      | WaitFailed e \<Rightarrow> Some (OSError e))"

text \<open>\<^verbatim>\<open>make(chan string, 100)\<close>\<close>

definition chan_capacity :: nat where
  "chan_capacity = 100"

text \<open>
  The two \<^verbatim>\<open>readOutput\<close> goroutines. Each sends every line, with its newline, on its
  channel and then parses it into the shared progress model. \<^verbatim>\<open>executeCommand\<close> receives
  from the two channels only after it has received both done signals, so while the readers
  run nothing leaves a channel: a send on a full channel never completes, its reader never
  reaches its deferred done signal, and \<^verbatim>\<open>executeCommand\<close> waits for that signal for
  ever (\<open>None\<close>). Otherwise the result is the content of the two channels and the
  progress model.
\<close>

fun readOutput ::
  "(stream \<times> string) list \<Rightarrow> string list \<times> string list \<times> ProgressInfo option \<Rightarrow>
   (string list \<times> string list \<times> ProgressInfo option) option" where
  "readOutput [] st = Some st"
| "readOutput ((Stdout, line) # rest) (outputChan, errorChan, progress) =
     (if length outputChan < chan_capacity
      then readOutput rest (outputChan @ [line @ [CHR 0x0A]], errorChan,
             parseProgress line progress)
      else None)"
| "readOutput ((Stderr, line) # rest) (outputChan, errorChan, progress) =
     (if length errorChan < chan_capacity
      then readOutput rest (outputChan, errorChan @ [line @ [CHR 0x0A]],
             parseProgress line progress)
      else None)"

definition wait_for_command :: "exec_env \<Rightarrow> ExecutionOptions \<Rightarrow> error option" where
  "wait_for_command env options =
     (if Timeout options > 0 then
        (case race env of
           CtxDone e \<Rightarrow> Some (ContextError e)
         | TimerFired \<Rightarrow> Some ExecutionTimedOut
         | ProcessExited \<Rightarrow> cmd_Wait (exit env))
      else cmd_Wait (exit env))"

definition exit_code_of :: "error \<Rightarrow> int" where
  "exit_code_of waitErr = (case waitErr of ExitError c \<Rightarrow> c | _ \<Rightarrow> - 1)"

definition executeCommand ::
  "exec_env \<Rightarrow> string list \<Rightarrow> ExecutionOptions \<Rightarrow> ExecutionResult \<Rightarrow>
   (ExecutionResult \<times> error option) outcome" where
  "executeCommand env args options result =
     (if args = [] then Panic
      else case stdout_pipe env of
        Some e \<Rightarrow> Returns (result, Some (StdoutPipeFailed e))
      | None \<Rightarrow>
      (case stderr_pipe env of
        Some e \<Rightarrow> Returns (result, Some (StderrPipeFailed e))
      | None \<Rightarrow>
      (case start env of
        Some e \<Rightarrow> Returns (result, Some (StartFailed e))
      | None \<Rightarrow>
      (let waitErr = wait_for_command env options
       in case readOutput (scanned env) ([], [], Progress result) of
            None \<Rightarrow> Blocked
          | Some (outputChan, errorChan, progress) \<Rightarrow>
              (let r1 = result\<lparr>Progress := progress, Output := concat outputChan,
                               ErrorOutput := concat errorChan\<rparr>
               in case waitErr of
                    Some e \<Rightarrow> Returns (r1\<lparr>ExitCode := exit_code_of e\<rparr>, Some e)
                  | None \<Rightarrow> Returns (r1\<lparr>ExitCode := 0\<rparr>, None))))))"

definition Execute ::
  "exec_env \<Rightarrow> MigrationType \<Rightarrow> ExecutionOptions \<Rightarrow>
   (ExecutionResult option \<times> error option) outcome" where
  "Execute env migrationType options =
     (let result = \<lparr>Status = StatusPending, StartTime = t_start env, EndTime = 0,
                     Duration = 0, ExitCode = 0, Output = [], ErrorOutput = [],
                     Progress = Some ProgressInfo_zero, Error = None\<rparr>;
          fail = (\<lambda>r err. Returns (Some (r\<lparr>Status := StatusFailed, Error := Some err\<rparr>),
                                   Some err))
      in case validateOra2pgTool env of
           Some err \<Rightarrow> fail result err
         | None \<Rightarrow>
      (case buildCommandArgs (config_stat env) migrationType options of
           Panic \<Rightarrow> Panic
         | Blocked \<Rightarrow> Blocked
         | Returns (Inl err) \<Rightarrow> fail result err
         | Returns (Inr args) \<Rightarrow>
      (case prepareExecutionEnvironment env options of
           Some err \<Rightarrow> fail result err
         | None \<Rightarrow>
      (case executeCommand env args options (result\<lparr>Status := StatusRunning\<rparr>) of
           Panic \<Rightarrow> Panic
         | Blocked \<Rightarrow> Blocked
         | Returns (r, Some err) \<Rightarrow>
             Returns (Some (r\<lparr>Status := StatusFailed, Error := Some err, EndTime := t_end env,
                              Duration := int (t_end env) - int (StartTime r)\<rparr>),
                      Some err)
         | Returns (r, None) \<Rightarrow>
             (let r1 = r\<lparr>EndTime := t_end env,
                           Duration := int (t_end env) - int (StartTime r)\<rparr>
              in Returns (Some (r1\<lparr>Status := (if ExitCode r1 = 0 then StatusCompleted
                                                 else StatusFailed)\<rparr>),
                          None))))))"

subsection \<open>The goroutines of \<^verbatim>\<open>executeCommand\<close>, step by step\<close>

text \<open>
  The same code as a transition system, one step per channel operation, for every
  interleaving of the two readers and the main goroutine. \<open>out_pending\<close> and
  \<open>err_pending\<close> are the lines the scanner of each stream is still going to deliver.
  The main goroutine waits for the command (whichever way that wait ends), receives two
  done signals, and only then closes the channels and collects their content.
\<close>

datatype main_pc = WaitingForCommand | AwaitFirstDone | AwaitSecondDone | Collected

record pump_state =
  out_pending :: "string list"
  out_chan :: "string list"
  out_done :: bool
  err_pending :: "string list"
  err_chan :: "string list"
  err_done :: bool
  doneChan :: nat
  shared_progress :: "ProgressInfo option"
  main :: main_pc
  collected :: "(string \<times> string) option"

definition pump_init ::
  "string list \<Rightarrow> string list \<Rightarrow> ProgressInfo option \<Rightarrow> pump_state" where
  "pump_init outs errs progress =
     \<lparr>out_pending = outs, out_chan = [], out_done = False,
      err_pending = errs, err_chan = [], err_done = False,
      doneChan = 0, shared_progress = progress, main = WaitingForCommand,
      collected = None\<rparr>"

inductive pump_step :: "pump_state \<Rightarrow> pump_state \<Rightarrow> bool" where
  stdout_send:
    "out_pending s = l # ls \<Longrightarrow> length (out_chan s) < chan_capacity \<Longrightarrow>
     pump_step s (s\<lparr>out_pending := ls, out_chan := out_chan s @ [l @ [CHR 0x0A]],
                    shared_progress := parseProgress l (shared_progress s)\<rparr>)"
| stderr_send:
    "err_pending s = l # ls \<Longrightarrow> length (err_chan s) < chan_capacity \<Longrightarrow>
     pump_step s (s\<lparr>err_pending := ls, err_chan := err_chan s @ [l @ [CHR 0x0A]],
                    shared_progress := parseProgress l (shared_progress s)\<rparr>)"
| stdout_done:
    "out_pending s = [] \<Longrightarrow> \<not> out_done s \<Longrightarrow>
     pump_step s (s\<lparr>out_done := True, doneChan := Suc (doneChan s)\<rparr>)"
| stderr_done:
    "err_pending s = [] \<Longrightarrow> \<not> err_done s \<Longrightarrow>
     pump_step s (s\<lparr>err_done := True, doneChan := Suc (doneChan s)\<rparr>)"
| command_waited:
    "main s = WaitingForCommand \<Longrightarrow> pump_step s (s\<lparr>main := AwaitFirstDone\<rparr>)"
| first_done:
    "main s = AwaitFirstDone \<Longrightarrow> doneChan s = Suc n \<Longrightarrow>
     pump_step s (s\<lparr>main := AwaitSecondDone, doneChan := n\<rparr>)"
| second_done:
    "main s = AwaitSecondDone \<Longrightarrow> doneChan s = Suc n \<Longrightarrow>
     pump_step s (s\<lparr>main := Collected, doneChan := n,
                    collected := Some (concat (out_chan s), concat (err_chan s))\<rparr>)"

text \<open>The done signals the main goroutine has received so far.\<close>

fun received :: "main_pc \<Rightarrow> nat" where
  "received WaitingForCommand = 0"
| "received AwaitFirstDone = 0"
| "received AwaitSecondDone = 1"
| "received Collected = 2"

section \<open>ProgressTracker (internal/service/progress.go)\<close>

record ProgressUpdate =
  pu_Step :: int
  pu_Message :: string
  pu_Percentage :: float64
  pu_Details :: string

text \<open>
  The fields of the tracker; the mutex serialises the methods, so each method is one
  function on the state. \<open>stopChan\<close> and \<open>updateChan\<close> hold what has been sent and not
  yet received by the display goroutine, whose rendering is not part of the state.
\<close>

record ProgressTracker =
  taskName :: string
  totalSteps :: int
  currentStep :: int
  currentMessage :: string
  percentage :: float64
  startTime :: time
  lastUpdateTime :: time
  isRunning :: bool
  stopChan :: "bool list"
  updateChan :: "ProgressUpdate list"
  updateChan_closed :: bool

definition NewProgressTracker :: ProgressTracker where
  "NewProgressTracker =
     \<lparr>taskName = [], totalSteps = 0, currentStep = 0, currentMessage = [], percentage = 0,
      startTime = 0, lastUpdateTime = 0, isRunning = False, stopChan = [], updateChan = [],
      updateChan_closed = False\<rparr>"

definition zh_ready :: string where
  "zh_ready =
     [CHR 0xE5, CHR 0x87, CHR 0x86, CHR 0xE5, CHR 0xA4, CHR 0x87, CHR 0xE5, CHR 0xBC, CHR 0x80,
      CHR 0xE5, CHR 0xA7, CHR 0x8B, CHR 0x2E, CHR 0x2E, CHR 0x2E]"

definition Start :: "string \<Rightarrow> int \<Rightarrow> time \<Rightarrow> time \<Rightarrow> ProgressTracker \<Rightarrow> ProgressTracker" where
  "Start name n now1 now2 pt =
     pt\<lparr>taskName := name, totalSteps := n, currentStep := 0, currentMessage := zh_ready,
        percentage := 0, startTime := now1, lastUpdateTime := now2, isRunning := True\<rparr>"

text \<open>
  \<^verbatim>\<open>close\<close> of a channel that is already closed panics. The send on \<open>stopChan\<close> is taken
  to complete (the display goroutine receives from it).
\<close>

definition Stop :: "ProgressTracker \<Rightarrow> ProgressTracker outcome" where
  "Stop pt =
     (if \<not> isRunning pt then Returns pt
      else if updateChan_closed pt then Panic
      else Returns (pt\<lparr>isRunning := False, stopChan := stopChan pt @ [True],
                      updateChan_closed := True\<rparr>))"

text \<open>
  The \<^verbatim>\<open>select\<close> with a \<^verbatim>\<open>default\<close> case: the update is queued if the channel has room and
  dropped otherwise; a send on a closed channel panics.
\<close>

definition try_send :: "ProgressUpdate \<Rightarrow> ProgressTracker \<Rightarrow> ProgressTracker outcome" where
  "try_send u pt =
     (if updateChan_closed pt then Panic
      else if length (updateChan pt) < 100 then Returns (pt\<lparr>updateChan := updateChan pt @ [u]\<rparr>)
      else Returns pt)"

definition UpdateStep :: "int \<Rightarrow> string \<Rightarrow> time \<Rightarrow> ProgressTracker \<Rightarrow> ProgressTracker outcome" where
  "UpdateStep step message now pt =
     (if \<not> isRunning pt then Returns pt
      else
        (let pt1 = pt\<lparr>currentStep := step, currentMessage := message, lastUpdateTime := now\<rparr>;
             pt2 = (if totalSteps pt1 > 0
                    then pt1\<lparr>percentage :=
                           f64_mul (f64_div (f64_of_int step) (f64_of_int (totalSteps pt1))) 100\<rparr>
                    else pt1)
         in try_send \<lparr>pu_Step = step, pu_Message = message, pu_Percentage = percentage pt2,
                       pu_Details = []\<rparr> pt2))"

definition UpdateProgress ::
  "float64 \<Rightarrow> string \<Rightarrow> time \<Rightarrow> ProgressTracker \<Rightarrow> ProgressTracker outcome" where
  "UpdateProgress pct details now pt =
     (if \<not> isRunning pt then Returns pt
      else
        (let pt1 = pt\<lparr>percentage := pct, lastUpdateTime := now\<rparr>
         in try_send \<lparr>pu_Step = currentStep pt1, pu_Message = currentMessage pt1,
                       pu_Percentage = pct, pu_Details = details\<rparr> pt1))"

definition SetMessage :: "string \<Rightarrow> time \<Rightarrow> ProgressTracker \<Rightarrow> ProgressTracker" where
  "SetMessage message now pt = pt\<lparr>currentMessage := message, lastUpdateTime := now\<rparr>"

definition Complete :: "string \<Rightarrow> time \<Rightarrow> ProgressTracker \<Rightarrow> ProgressTracker" where
  "Complete message now pt =
     pt\<lparr>currentStep := totalSteps pt, percentage := 100, currentMessage := message,
        lastUpdateTime := now\<rparr>"

section \<open>MigrationOrchestrator: \<^verbatim>\<open>ExecuteWithProgress\<close> (internal/service/migration.go)\<close>

datatype MigrationPhase = PhaseStructure | PhaseData | PhaseIndex | PhaseFunction | PhaseGrant

record MigrationState =
  CurrentPhase :: MigrationPhase
  CurrentType :: MigrationType
  ms_TotalSteps :: int
  ms_CompletedSteps :: int
  ms_StartTime :: time
  ms_LastUpdateTime :: time
  Results :: "ExecutionResult option list"
  IsCompleted :: bool
  IsCancelled :: bool

text \<open>The two settings of the project configuration the service reads.\<close>

record config =
  Migration_OutputDir :: string
  OracleClient_Home :: string

text \<open>
  What one iteration of the loop asks its environment: whether the context is done when
  the iteration starts (and then \<^verbatim>\<open>ctx.Err()\<close>), the clock, the time stamp of the log
  file name, and the environment of the step's \<^verbatim>\<open>Execute\<close>.
\<close>

record step_env =
  ctx_done :: "ctx_error option"
  t_update :: time
  log_timestamp :: string
  exec :: exec_env
  t_last :: time
  t_progress :: time

text \<open>
  What the method asks before the loop: the clock, the three directories of
  \<^verbatim>\<open>prepareEnvironment\<close>, and for \<^verbatim>\<open>GenerateConfigFile\<close> the state of \<^verbatim>\<open>templates\<close>, the
  directory of the executable (\<open>None\<close> when \<^verbatim>\<open>os.Executable\<close> fails), the state of its
  \<^verbatim>\<open>templates\<close>, and what the template engine returns when it renders and writes the
  configuration file.
\<close>

record run_env =
  t_begin :: time
  t_begin2 :: time
  output_stat :: stat_result
  output_mkdir :: "os_error option"
  logs_stat :: stat_result
  logs_mkdir :: "os_error option"
  backup_stat :: stat_result
  backup_mkdir :: "os_error option"
  templates_stat :: stat_result
  executable_dir :: "string option"
  exe_templates_stat :: stat_result
  render :: "error option"
  filepath_Join :: "string \<Rightarrow> string \<Rightarrow> string"
  steps :: "nat \<Rightarrow> step_env"

definition prepareEnvironment :: "config \<Rightarrow> run_env \<Rightarrow> error option" where
  "prepareEnvironment cfg renv =
     (case EnsureDir (output_stat renv) (output_mkdir renv) (Migration_OutputDir cfg) of
        Some err \<Rightarrow> Some (CreateFailed (Migration_OutputDir cfg) err)
      | None \<Rightarrow>
     (case EnsureDir (logs_stat renv) (logs_mkdir renv) ''logs'' of
        Some err \<Rightarrow> Some (CreateFailed ''logs'' err)
      | None \<Rightarrow>
     (case EnsureDir (backup_stat renv) (backup_mkdir renv) ''backup'' of
        Some err \<Rightarrow> Some (CreateFailed ''backup'' err)
      | None \<Rightarrow> None)))"

text \<open>
  \<^verbatim>\<open>GenerateConfigFile\<close> (internal/service/ora2pg.go), called by
  \<^verbatim>\<open>generateOra2pgConfig\<close>: it looks for the template directory and then lets the template
  engine write the file.
\<close>

definition GenerateConfigFile :: "run_env \<Rightarrow> error option outcome" where
  "GenerateConfigFile renv =
     (case DirExists (templates_stat renv) ''templates'' of
        Panic \<Rightarrow> Panic
      | Blocked \<Rightarrow> Blocked
      | Returns found \<Rightarrow>
          if found then Returns (render renv)
          else
            (case executable_dir renv of
               None \<Rightarrow> Returns (render renv)
             | Some execPath \<Rightarrow>
                 (case DirExists (exe_templates_stat renv)
                         (filepath_Join renv execPath ''templates'') of
                    Panic \<Rightarrow> Panic
                  | Blocked \<Rightarrow> Blocked
                  | Returns found2 \<Rightarrow>
                      if found2 then Returns (render renv)
                      else Returns (Some TEMPLATE_NOT_FOUND))))"

definition getPhaseForType :: "MigrationType \<Rightarrow> MigrationPhase" where
  "getPhaseForType migrationType =
     (if migrationType \<in> set [''TABLE'', ''VIEW'', ''SEQUENCE''] then PhaseStructure
      else if migrationType \<in> set [''COPY'', ''INSERT''] then PhaseData
      else if migrationType = ''INDEX'' then PhaseIndex
      else if migrationType \<in> set [''FUNCTION'', ''PROCEDURE'', ''TRIGGER''] then PhaseFunction
      else if migrationType = ''GRANT'' then PhaseGrant
      else PhaseStructure)"

definition buildEnvironment :: "config \<Rightarrow> (string \<times> string) list" where
  "buildEnvironment cfg =
     (if OracleClient_Home cfg \<noteq> [] then [(''ORACLE_HOME'', OracleClient_Home cfg)] else [])
     @ [(''NLS_LANG'', ''AMERICAN_AMERICA.UTF8'')]"

definition getLogFilePath :: "run_env \<Rightarrow> step_env \<Rightarrow> MigrationType \<Rightarrow> string" where
  "getLogFilePath renv se migrationType =
     filepath_Join renv ''logs''
       (''ora2pg-'' @ migrationType @ ''-'' @ log_timestamp se @ ''.log'')"

text \<open>30 minutes, in nanoseconds.\<close>

definition default_timeout :: int where
  "default_timeout = 30 * 60 * 1000000000"

definition executeSingleMigration ::
  "config \<Rightarrow> run_env \<Rightarrow> step_env \<Rightarrow> MigrationType \<Rightarrow>
   (ExecutionResult option \<times> error option) outcome" where
  "executeSingleMigration cfg renv se migrationType =
     Execute (exec se) migrationType
       \<lparr>ConfigFile = filepath_Join renv (Migration_OutputDir cfg) ''ora2pg.conf'',
        OutputDir = Migration_OutputDir cfg,
        LogFile = getLogFilePath renv se migrationType,
        DryRun = False, Verbose = False, Timeout = default_timeout,
        Environment = buildEnvironment cfg, WorkingDir = ''.''\<rparr>"

definition step_message :: "MigrationType \<Rightarrow> string" where
  "step_message migrationType =
     [CHR 0xE6, CHR 0x89, CHR 0xA7, CHR 0xE8, CHR 0xA1, CHR 0x8C, CHR 0x20] @ migrationType @
     [CHR 0x20, CHR 0xE8, CHR 0xBF, CHR 0x81, CHR 0xE7, CHR 0xA7, CHR 0xBB]"

text \<open>
  The loop over the migration types, from index \<open>i\<close> on. A nil result would make
  \<^verbatim>\<open>result.Progress\<close> panic.
\<close>

fun run_steps ::
  "config \<Rightarrow> run_env \<Rightarrow> nat \<Rightarrow> MigrationType list \<Rightarrow>
   ExecutionResult option list \<times> MigrationState \<times> ProgressTracker \<Rightarrow>
   ((ExecutionResult option list \<times> error option) \<times> MigrationState \<times> ProgressTracker) outcome"
  where
  "run_steps cfg renv i [] (results, st, pt) = Returns ((results, None), st, pt)"
| "run_steps cfg renv i (migrationType # rest) (results, st, pt) =
     (let se = steps renv i
      in case ctx_done se of
           Some e \<Rightarrow> Returns ((results, Some (ContextError e)), st\<lparr>IsCancelled := True\<rparr>, pt)
         | None \<Rightarrow>
             (let st1 = st\<lparr>CurrentType := migrationType,
                            CurrentPhase := getPhaseForType migrationType\<rparr>
              in case UpdateStep (int i + 1) (step_message migrationType) (t_update se) pt of
                   Panic \<Rightarrow> Panic
                 | Blocked \<Rightarrow> Blocked
                 | Returns pt1 \<Rightarrow>
                     (case executeSingleMigration cfg renv se migrationType of
                        Panic \<Rightarrow> Panic
                      | Blocked \<Rightarrow> Blocked
                      | Returns (result, err) \<Rightarrow>
                          (let results1 = results @ [result];
                               st2 = st1\<lparr>Results := Results st1 @ [result],
                                         ms_CompletedSteps := ms_CompletedSteps st1 + 1,
                                         ms_LastUpdateTime := t_last se\<rparr>
                           in case result of
                                None \<Rightarrow> Panic
                              | Some r \<Rightarrow>
                                  (case Progress r of
                                     None \<Rightarrow> run_steps cfg renv (Suc i) rest (results1, st2, pt1)
                                   | Some pr \<Rightarrow>
                                       (case UpdateProgress (Percentage pr) (Message pr)
                                               (t_progress se) pt1 of
                                          Panic \<Rightarrow> Panic
                                        | Blocked \<Rightarrow> Blocked
                                        | Returns pt2 \<Rightarrow>
                                            run_steps cfg renv (Suc i) rest
                                              (results1, st2, pt2)))))))"

text \<open>
  The results are returned with the error; the state of the service and the tracker are
  returned as well, since the method updates both. A nil slice is the empty list.
  The error of \<^verbatim>\<open>generateOra2pgConfig\<close> is only logged; the file it writes shows in what
  the steps' environments answer.
\<close>

definition ExecuteWithProgress ::
  "config \<Rightarrow> run_env \<Rightarrow> MigrationType list \<Rightarrow> MigrationState \<times> ProgressTracker \<Rightarrow>
   ((ExecutionResult option list \<times> error option) \<times> MigrationState \<times> ProgressTracker) outcome"
  where
  "ExecuteWithProgress cfg renv migrationTypes sp =
     (case sp of (st, pt) \<Rightarrow>
        (let st0 = st\<lparr>ms_TotalSteps := int (length migrationTypes), ms_CompletedSteps := 0,
                       ms_StartTime := t_begin renv, ms_LastUpdateTime := t_begin2 renv,
                       IsCompleted := False, IsCancelled := False\<rparr>
         in case prepareEnvironment cfg renv of
              Some err \<Rightarrow> Returns (([], Some err), st0, pt)
            | None \<Rightarrow>
                (case GenerateConfigFile renv of
                   Panic \<Rightarrow> Panic
                 | Blocked \<Rightarrow> Blocked
                 | Returns warning \<Rightarrow>
                     (case run_steps cfg renv 0 migrationTypes ([], st0, pt) of
                        Returns ((results, None), st1, pt1) \<Rightarrow>
                          Returns ((results, None), st1\<lparr>IsCompleted := True\<rparr>, pt1)
                      | other \<Rightarrow> other))))"

section \<open>Predicates and example inputs used in the statements\<close>

text \<open>
  The child process was started: the tool was found, the arguments were built, the
  directories were prepared, both pipes were created and \<^verbatim>\<open>cmd.Start\<close> succeeded.
\<close>

definition process_started :: "exec_env \<Rightarrow> MigrationType \<Rightarrow> ExecutionOptions \<Rightarrow> bool" where
  "process_started e migrationType options =
     (validateOra2pgTool e = None \<and>
      (case buildCommandArgs (config_stat e) migrationType options of
         Returns (Inr args) \<Rightarrow> True
       | _ \<Rightarrow> False) \<and>
      prepareExecutionEnvironment e options = None \<and>
      stdout_pipe e = None \<and> stderr_pipe e = None \<and> start e = None)"

text \<open>An environment in which everything succeeds and the child exits with status 0.\<close>

definition example_env :: exec_env where
  "example_env =
     \<lparr>lookPath_found = True, config_stat = StatFile, outdir_stat = StatDir,
      outdir_mkdir = None, logdir = ''logs'', logdir_stat = StatDir, logdir_mkdir = None,
      stdout_pipe = None, stderr_pipe = None, start = None,
      scanned = [(Stdout, ''Processing table: USERS (3/10)''), (Stderr, ''WARNING: slow'')],
      race = ProcessExited, exit = Exited 0, t_start = 1000, t_end = 1005\<rparr>"

text \<open>The options of \<^verbatim>\<open>TestBuildCommandArgs\<close>, with a timeout of 30 seconds.\<close>

definition example_options :: ExecutionOptions where
  "example_options =
     \<lparr>ConfigFile = ''test.conf'', OutputDir = ''output'', LogFile = ''test.log'',
      DryRun = True, Verbose = True, Timeout = 30000000000, Environment = [],
      WorkingDir = ''.''\<rparr>"

text \<open>
  \<^verbatim>\<open>float64(completed) / float64(total) * 100\<close>, the expression of the first handler.
\<close>

definition percent_of :: "int \<Rightarrow> int \<Rightarrow> float64" where
  "percent_of c t = f64_mul (f64_div (f64_of_int c) (f64_of_int t)) 100"

text \<open>
  A line of the first pattern whose total is outside the range of \<^verbatim>\<open>int\<close> while its
  completed count is inside: \<^verbatim>\<open>strconv.Atoi\<close> fails for the total only.
\<close>

definition total_overflows_alone :: "string \<Rightarrow> bool" where
  "total_overflows_alone line =
     (case FindStringSubmatch re_processing line of
        Some [kind, name, c, t] \<Rightarrow> Atoi t = None \<and> Atoi c \<noteq> None
      | _ \<Rightarrow> False)"

text \<open>
  The percentage is the quotient of the two counters whenever the total is positive, and
  it is 0 or a quotient that was computed from a completed count and a positive total.
\<close>

definition percentage_consistent :: "ProgressInfo \<Rightarrow> bool" where
  "percentage_consistent p =
     ((0 < TotalSteps p \<longrightarrow> Percentage p = percent_of (CompletedSteps p) (TotalSteps p)) \<and>
      (Percentage p = 0 \<or> (\<exists>c t. 0 < t \<and> Percentage p = percent_of c t)))"

text \<open>The lines of one stream, in the order in which its reader takes them up.\<close>

definition lines_of :: "stream \<Rightarrow> (stream \<times> string) list \<Rightarrow> string list" where
  "lines_of str evs = map snd (filter (\<lambda>e. fst e = str) evs)"

text \<open>Neither stream delivers more lines than its channel takes.\<close>

definition within_capacity :: "exec_env \<Rightarrow> bool" where
  "within_capacity e =
     (length (lines_of Stdout (scanned e)) \<le> chan_capacity \<and>
      length (lines_of Stderr (scanned e)) \<le> chan_capacity)"

text \<open>
  Invariants of the transition system while one stream holds \<open>n\<close> lines, more than the
  channel takes: the lines are split between the channel and the scanner, the reader of
  that stream has not signalled, and the main goroutine has received at most the other
  reader's signal.
\<close>

definition stderr_stuck :: "nat \<Rightarrow> pump_state \<Rightarrow> bool" where
  "stderr_stuck n s =
     (length (err_chan s) + length (err_pending s) = n \<and>
      length (err_chan s) \<le> chan_capacity \<and> \<not> err_done s \<and>
      doneChan s + received (main s) = (if out_done s then 1 else 0))"

definition stdout_stuck :: "nat \<Rightarrow> pump_state \<Rightarrow> bool" where
  "stdout_stuck n s =
     (length (out_chan s) + length (out_pending s) = n \<and>
      length (out_chan s) \<le> chan_capacity \<and> \<not> out_done s \<and>
      doneChan s + received (main s) = (if err_done s then 1 else 0))"

text \<open>A tracker after \<^verbatim>\<open>Start("migrate", 3)\<close> at time 10 and \<^verbatim>\<open>Stop()\<close>.\<close>

definition stopped_tracker :: ProgressTracker where
  "stopped_tracker =
     \<lparr>taskName = ''migrate'', totalSteps = 3, currentStep = 0, currentMessage = zh_ready,
      percentage = 0, startTime = 10, lastUpdateTime = 10, isRunning = False,
      stopChan = [True], updateChan = [], updateChan_closed = True\<rparr>"

text \<open>
  The tracker can take an update: it is not both running and closed (the state after
  \<^verbatim>\<open>Start\<close>, \<^verbatim>\<open>Stop\<close>, \<^verbatim>\<open>Start\<close>, in which a send on the closed channel panics).
\<close>

definition tracker_usable :: "ProgressTracker \<Rightarrow> bool" where
  "tracker_usable pt = (\<not> (isRunning pt \<and> updateChan_closed pt))"

text \<open>A run of three steps, for the scenario of P6.\<close>

definition example_config :: config where
  "example_config = \<lparr>Migration_OutputDir = ''output'', OracleClient_Home = ''/opt/oracle''\<rparr>"

definition example_step :: "exec_env \<Rightarrow> step_env" where
  "example_step e =
     \<lparr>ctx_done = None, t_update = 1000, log_timestamp = ''20260101-120000'', exec = e,
      t_last = 1005, t_progress = 1005\<rparr>"

text \<open>Three steps; the child of the second exits with status 1.\<close>

definition example_run :: run_env where
  "example_run =
     \<lparr>t_begin = 999, t_begin2 = 999, output_stat = StatDir, output_mkdir = None,
      logs_stat = StatDir, logs_mkdir = None, backup_stat = StatDir, backup_mkdir = None,
      templates_stat = StatDir, executable_dir = Some ''/usr/local/bin'',
      exe_templates_stat = StatNotExist, render = None,
      filepath_Join = (\<lambda>a b. a @ ''/'' @ b),
      steps = (\<lambda>i. example_step (if i = 1 then example_env\<lparr>exit := Exited 1\<rparr>
                                   else example_env))\<rparr>"

definition example_state :: MigrationState where
  "example_state =
     \<lparr>CurrentPhase = PhaseStructure, CurrentType = [], ms_TotalSteps = 0,
      ms_CompletedSteps = 0, ms_StartTime = 0, ms_LastUpdateTime = 0, Results = [],
      IsCompleted = False, IsCancelled = False\<rparr>"

definition example_tracker :: ProgressTracker where
  "example_tracker = Start ''migrate'' 3 990 990 NewProgressTracker"

definition example_types :: "MigrationType list" where
  "example_types = [''TABLE'', ''VIEW'', ''INDEX'']"


text \<open>The same run, when the output directory cannot be created.\<close>

definition example_run_unwritable :: run_env where
  "example_run_unwritable =
     example_run\<lparr>output_stat := StatNotExist, output_mkdir := Some ''permission denied''\<rparr>"

section \<open>Properties of the line classifier\<close>

text \<open>
  The rounding agrees with IEEE 754 binary64 on sample values: the double nearest to
  \<open>1/3\<close>, the product \<^verbatim>\<open>1.0 / 3.0 * 100\<close> (33.33333333333333), and two integers that are
  not representable.
\<close>

lemma f64_examples:
  "f64_div 1 3 = 6004799503160661 / 18014398509481984"
  "f64_mul (f64_div 1 3) 100 = 2345624805922133 / 70368744177664"
  "f64_of_int 9223372036854775807 = 9223372036854775808"
  "f64_of_int 9007199254740993 = 9007199254740992"
  by code_simp+

lemma apply_patterns_first:
  "k < length ps \<Longrightarrow> FindStringSubmatch (fst (ps ! k)) line = Some m \<Longrightarrow>
   (\<forall>j<k. FindStringSubmatch (fst (ps ! j)) line = None) \<Longrightarrow>
   apply_patterns ps line p = snd (ps ! k) m p"
proof (induction ps arbitrary: k)
  case Nil
  then show ?case by simp
next
  case (Cons pat rest)
  show ?case
  proof (cases k)
    case 0
    with Cons.prems show ?thesis by simp
  next
    case (Suc k')
    from Cons.prems(3) Suc have h0: "FindStringSubmatch (fst pat) line = None"
      by auto
    from Cons.prems Suc have "apply_patterns rest line p = snd (rest ! k') m p"
      by (intro Cons.IH) auto
    with h0 Suc show ?thesis by simp
  qed
qed

lemma apply_patterns_none:
  "(\<forall>j<length ps. FindStringSubmatch (fst (ps ! j)) line = None) \<Longrightarrow>
   apply_patterns ps line p = p"
proof (induction ps)
  case Nil
  then show ?case by simp
next
  case (Cons pat rest)
  from Cons.prems have h0: "FindStringSubmatch (fst pat) line = None" by auto
  from Cons.prems have "\<forall>j<length rest. FindStringSubmatch (fst (rest ! j)) line = None"
    by auto
  with Cons.IH h0 show ?case by simp
qed

lemma scenario_A:
  "parseProgress ''Processing table: USERS (3/10)'' (Some ProgressInfo_zero) =
     Some (ProgressInfo_zero\<lparr>CurrentStep := zh_processing @ ''table: USERS'',
             TotalSteps := 10, CompletedSteps := 3, Percentage := 30\<rparr>)"
  by code_simp

text \<open>
  Claim C6. The patterns are tried in the order of the list and only the first that
  matches is applied: if pattern \<open>k\<close> matches and none before it does, the result is that
  of handler \<open>k\<close> alone, whatever the later patterns would match; if none matches the
  progress model is unchanged. For the line \<^verbatim>\<open>Processing table: USERS (3/10)\<close> and a
  fresh model the result has completedSteps 3, totalSteps 10, percentage 30.0 (the
  float64 value, computed by round-to-nearest division and multiplication) and a
  currentStep that contains \<^verbatim>\<open>USERS\<close>.
\<close>

theorem C6_first_match_wins:
  "(k < length patterns \<longrightarrow>
      FindStringSubmatch (fst (patterns ! k)) line = Some m \<longrightarrow>
      (\<forall>j<k. FindStringSubmatch (fst (patterns ! j)) line = None) \<longrightarrow>
      parseProgress line (Some p) = Some (snd (patterns ! k) m p))
   \<and> ((\<forall>j<length patterns. FindStringSubmatch (fst (patterns ! j)) line = None) \<longrightarrow>
      parseProgress line (Some p) = Some p)
   \<and> parseProgress ''Processing table: USERS (3/10)'' (Some ProgressInfo_zero) =
       Some (ProgressInfo_zero\<lparr>CurrentStep := zh_processing @ ''table: USERS'',
               TotalSteps := 10, CompletedSteps := 3, Percentage := 30\<rparr>)
   \<and> sublist ''USERS'' (zh_processing @ ''table: USERS'')"
proof (intro conjI impI)
  assume "k < length patterns"
    and "FindStringSubmatch (fst (patterns ! k)) line = Some m"
    and "\<forall>j<k. FindStringSubmatch (fst (patterns ! j)) line = None"
  then show "parseProgress line (Some p) = Some (snd (patterns ! k) m p)"
    by (simp add: parseProgress_def apply_patterns_first)
next
  assume "\<forall>j<length patterns. FindStringSubmatch (fst (patterns ! j)) line = None"
  then show "parseProgress line (Some p) = Some p"
    by (simp add: parseProgress_def apply_patterns_none)
next
  show "parseProgress ''Processing table: USERS (3/10)'' (Some ProgressInfo_zero) =
       Some (ProgressInfo_zero\<lparr>CurrentStep := zh_processing @ ''table: USERS'',
               TotalSteps := 10, CompletedSteps := 3, Percentage := 30\<rparr>)"
    by (rule scenario_A)
next
  have "zh_processing @ ''table: USERS'' = (zh_processing @ ''table: '') @ ''USERS'' @ []"
    by simp
  then show "sublist ''USERS'' (zh_processing @ ''table: USERS'')"
    unfolding sublist_def by blast
qed

text \<open>
  The line below matches the second pattern and the third, and not the first: only the
  handler of the second runs (\<open>TotalRows\<close> stays 0).
\<close>

lemma two_patterns_line_processing:
  "FindStringSubmatch re_processing ''Exported 5 rows of Total rows: 9'' = None"
  by code_simp

lemma two_patterns_line_exported:
  "FindStringSubmatch re_exported ''Exported 5 rows of Total rows: 9'' = Some [''5'']"
  by code_simp

lemma two_patterns_line_total:
  "FindStringSubmatch re_total_rows ''Exported 5 rows of Total rows: 9'' = Some [''9'']"
  by code_simp

lemma handle_exported_5:
  "handle_exported [''5''] ProgressInfo_zero =
     ProgressInfo_zero\<lparr>ProcessedRows := 5, Message := zh_exported @ '' 5 '' @ zh_rows\<rparr>"
  by code_simp

theorem C6_first_match_wins_witness:
  "FindStringSubmatch re_exported ''Exported 5 rows of Total rows: 9'' = Some [''5'']
   \<and> FindStringSubmatch re_total_rows ''Exported 5 rows of Total rows: 9'' = Some [''9'']
   \<and> parseProgress ''Exported 5 rows of Total rows: 9'' (Some ProgressInfo_zero) =
       Some (ProgressInfo_zero\<lparr>ProcessedRows := 5,
               Message := zh_exported @ '' 5 '' @ zh_rows\<rparr>)"
  using C6_first_match_wins
    [of 1 "''Exported 5 rows of Total rows: 9''" "[''5'']" ProgressInfo_zero]
  by (simp add: patterns_def two_patterns_line_processing two_patterns_line_exported
      two_patterns_line_total handle_exported_5)

lemma match_zero_of_zero:
  "FindStringSubmatch re_processing ''Processing X: Y (0/0)'' = Some [''X'', ''Y'', ''0'', ''0'']"
  by code_simp

lemma Atoi_zero: "Atoi ''0'' = Some 0"
  by code_simp

text \<open>
  Claim C7. For every prior progress model, parsing \<^verbatim>\<open>Processing X: Y (0/0)\<close> sets the
  current step and the two counters and nothing else: the guard \<^verbatim>\<open>total > 0\<close> fails, the
  division is not evaluated, and the percentage keeps exactly its prior value.
\<close>

theorem C7_zero_total_keeps_percentage:
  "parseProgress ''Processing X: Y (0/0)'' (Some p) =
     Some (p\<lparr>CurrentStep := zh_processing @ ''X: Y'', CompletedSteps := 0, TotalSteps := 0\<rparr>)
   \<and> Percentage (p\<lparr>CurrentStep := zh_processing @ ''X: Y'', CompletedSteps := 0,
                     TotalSteps := 0\<rparr>) = Percentage p"
  by (simp add: parseProgress_def patterns_def match_zero_of_zero handle_processing_def
      Atoi_zero)

lemma handle_processing_percentage:
  "handle_processing m p = p' \<Longrightarrow>
   Percentage p' = Percentage p \<or>
   (0 < TotalSteps p' \<and>
    Percentage p' =
      f64_mul (f64_div (f64_of_int (CompletedSteps p')) (f64_of_int (TotalSteps p'))) 100)"
  by (auto simp: handle_processing_def Let_def split: list.splits option.splits if_splits)

lemma handle_exported_percentage: "Percentage (handle_exported m p) = Percentage p"
  by (simp add: handle_exported_def Let_def split: list.splits option.splits)

lemma handle_total_rows_percentage: "Percentage (handle_total_rows m p) = Percentage p"
  by (simp add: handle_total_rows_def split: list.splits option.splits)

lemma handle_status_percentage: "Percentage (handle_status m p) = Percentage p"
  by (simp add: handle_status_def split: list.splits)

text \<open>
  Claim C8, as stated, fails: after a line with a positive total and then a line with total
  0, \<open>TotalSteps\<close> is 0 and the percentage is still 30, not 0.
\<close>

theorem C8_zero_total_counterexample:
  "parse_all [''Processing table: A (3/10)'', ''Processing table: B (0/0)'']
     (Some ProgressInfo_zero) =
   Some \<lparr>CurrentStep = zh_processing @ ''table: B'', TotalSteps = 0, CompletedSteps = 0,
         Percentage = 30, ProcessedRows = 0, TotalRows = 0, Message = []\<rparr>"
  by code_simp

text \<open>
  Every call either leaves the percentage at its prior value or stores a positive total
  and the quotient of the two counters as they are after the call.
\<close>

lemma parseProgress_percentage_step:
  "parseProgress line (Some p) = Some p' \<Longrightarrow>
   Percentage p' = Percentage p \<or>
   (0 < TotalSteps p' \<and>
    Percentage p' =
      f64_mul (f64_div (f64_of_int (CompletedSteps p')) (f64_of_int (TotalSteps p'))) 100)"
proof -
  assume a: "parseProgress line (Some p) = Some p'"
  show ?thesis
  proof (cases "FindStringSubmatch re_processing line")
    case (Some m)
    with a have "handle_processing m p = p'"
      by (simp add: parseProgress_def patterns_def)
    then show ?thesis by (rule handle_processing_percentage)
  next
    case None
    with a have "Percentage p' = Percentage p"
      by (auto simp: parseProgress_def patterns_def handle_exported_percentage
          handle_total_rows_percentage handle_status_percentage split: option.splits)
    then show ?thesis by simp
  qed
qed

lemma handle_exported_counters:
  "TotalSteps (handle_exported m p) = TotalSteps p \<and>
   CompletedSteps (handle_exported m p) = CompletedSteps p"
  by (simp add: handle_exported_def Let_def split: list.splits option.splits)

lemma handle_total_rows_counters:
  "TotalSteps (handle_total_rows m p) = TotalSteps p \<and>
   CompletedSteps (handle_total_rows m p) = CompletedSteps p"
  by (simp add: handle_total_rows_def split: list.splits option.splits)

lemma handle_status_counters:
  "TotalSteps (handle_status m p) = TotalSteps p \<and>
   CompletedSteps (handle_status m p) = CompletedSteps p"
  by (simp add: handle_status_def split: list.splits)

lemma other_lines_keep_counters:
  assumes "FindStringSubmatch re_processing line = None"
  shows "Percentage (apply_patterns patterns line p) = Percentage p \<and>
         TotalSteps (apply_patterns patterns line p) = TotalSteps p \<and>
         CompletedSteps (apply_patterns patterns line p) = CompletedSteps p"
  using assms
  by (simp add: patterns_def handle_exported_percentage handle_total_rows_percentage
      handle_status_percentage handle_exported_counters handle_total_rows_counters
      handle_status_counters split: option.splits)

lemma handle_processing_consistent:
  assumes "percentage_consistent p"
    and "\<not> (case m of [kind, name, c, t] \<Rightarrow> Atoi t = None \<and> Atoi c \<noteq> None | _ \<Rightarrow> False)"
  shows "percentage_consistent (handle_processing m p)"
  using assms
  unfolding percentage_consistent_def handle_processing_def Let_def percent_of_def
  by (auto split: list.splits option.splits)

lemma parseProgress_consistent:
  assumes "percentage_consistent p" and "\<not> total_overflows_alone line"
  shows "percentage_consistent (apply_patterns patterns line p)"
proof (cases "FindStringSubmatch re_processing line")
  case None
  from other_lines_keep_counters [OF None, of p] assms(1) show ?thesis
    by (simp add: percentage_consistent_def)
next
  case (Some m)
  with assms(2)
  have "\<not> (case m of [kind, name, c, t] \<Rightarrow> Atoi t = None \<and> Atoi c \<noteq> None | _ \<Rightarrow> False)"
    by (simp add: total_overflows_alone_def)
  from handle_processing_consistent [OF assms(1) this] Some show ?thesis
    by (simp add: patterns_def)
qed

lemma parse_all_consistent:
  "\<forall>l\<in>set ls. \<not> total_overflows_alone l \<Longrightarrow> percentage_consistent p0 \<Longrightarrow>
   parse_all ls (Some p0) = Some p \<Longrightarrow> percentage_consistent p"
proof (induction ls arbitrary: p0)
  case Nil
  then show ?case by simp
next
  case (Cons l ls)
  from Cons.prems(1,2) have "percentage_consistent (apply_patterns patterns l p0)"
    by (simp add: parseProgress_consistent)
  moreover from Cons.prems(3)
  have "parse_all ls (Some (apply_patterns patterns l p0)) = Some p"
    by (simp add: parseProgress_def)
  ultimately show ?case using Cons.prems(1) by (intro Cons.IH [of "apply_patterns patterns l p0"]) auto
qed

lemma zero_total_keeps_percentage:
  "TotalSteps (apply_patterns patterns line p) = 0 \<Longrightarrow>
   Percentage (apply_patterns patterns line p) = Percentage p"
proof (cases "FindStringSubmatch re_processing line")
  case None
  assume "TotalSteps (apply_patterns patterns line p) = 0"
  from other_lines_keep_counters [OF None, of p] show ?thesis by simp
next
  case (Some m)
  assume "TotalSteps (apply_patterns patterns line p) = 0"
  with Some show ?thesis
    by (auto simp: patterns_def handle_processing_def Let_def
        split: list.splits option.splits if_splits)
qed

text \<open>
  Claim C8, amended. For every progress model reachable from the initial model by calls of
  \<^verbatim>\<open>parseProgress\<close> on lines none of which has a total outside the range of \<^verbatim>\<open>int\<close>
  beside a completed count inside it: the percentage is
  \<open>CompletedSteps / TotalSteps * 100\<close> (in float64 arithmetic) whenever \<open>TotalSteps\<close> is
  positive, and it is 0 or such a quotient for a positive total. When \<open>TotalSteps\<close> is 0
  the percentage need not be 0: every call after which \<open>TotalSteps\<close> is 0 leaves the
  percentage at its prior value. Every call either leaves the percentage unchanged or
  sets it to the quotient of the two counters as they are after the call; it is never
  set in any other way.
\<close>

theorem C8_percentage_invariant:
  assumes "\<forall>l\<in>set ls. \<not> total_overflows_alone l"
    and "parse_all ls (Some ProgressInfo_zero) = Some p"
  shows "(0 < TotalSteps p \<longrightarrow>
            Percentage p = percent_of (CompletedSteps p) (TotalSteps p))
     \<and> (Percentage p = 0 \<or> (\<exists>c t. 0 < t \<and> Percentage p = percent_of c t))
     \<and> (\<forall>line p'. parseProgress line (Some p) = Some p' \<longrightarrow>
          (Percentage p' = Percentage p \<or>
           (0 < TotalSteps p' \<and>
            Percentage p' = percent_of (CompletedSteps p') (TotalSteps p'))) \<and>
          (TotalSteps p' = 0 \<longrightarrow> Percentage p' = Percentage p))"
proof -
  have "percentage_consistent ProgressInfo_zero"
    by (simp add: percentage_consistent_def ProgressInfo_zero_def)
  from parse_all_consistent [OF assms(1) this assms(2)]
  have inv: "(0 < TotalSteps p \<longrightarrow>
            Percentage p = percent_of (CompletedSteps p) (TotalSteps p))
     \<and> (Percentage p = 0 \<or> (\<exists>c t. 0 < t \<and> Percentage p = percent_of c t))"
    by (simp add: percentage_consistent_def)
  have step: "Percentage p' = Percentage p \<or>
           (0 < TotalSteps p' \<and>
            Percentage p' = percent_of (CompletedSteps p') (TotalSteps p'))"
    if "parseProgress line (Some p) = Some p'" for line p'
    using parseProgress_percentage_step [OF that] by (simp add: percent_of_def)
  have zero: "TotalSteps p' = 0 \<longrightarrow> Percentage p' = Percentage p"
    if "parseProgress line (Some p) = Some p'" for line p'
    using that zero_total_keeps_percentage [of line p] by (auto simp: parseProgress_def)
  from inv step zero show ?thesis by blast
qed

lemma witness_lines_in_range:
  "\<forall>l\<in>set [''Processing table: A (3/10)'', ''Exported 5 rows'',
             ''Processing table: B (0/0)'', ''Processing table: C (7/20)''].
     \<not> total_overflows_alone l"
  by code_simp

lemma witness_lines_run:
  "parse_all [''Processing table: A (3/10)'', ''Exported 5 rows'',
              ''Processing table: B (0/0)'', ''Processing table: C (7/20)'']
     (Some ProgressInfo_zero) =
   Some \<lparr>CurrentStep = zh_processing @ ''table: C'', TotalSteps = 20, CompletedSteps = 7,
         Percentage = 35, ProcessedRows = 5, TotalRows = 0,
         Message = zh_exported @ '' 5 '' @ zh_rows\<rparr>"
  by code_simp

theorem C8_percentage_invariant_witness:
  "parse_all [''Processing table: A (3/10)'', ''Exported 5 rows'',
              ''Processing table: B (0/0)'', ''Processing table: C (7/20)'']
     (Some ProgressInfo_zero) =
   Some \<lparr>CurrentStep = zh_processing @ ''table: C'', TotalSteps = 20, CompletedSteps = 7,
         Percentage = 35, ProcessedRows = 5, TotalRows = 0,
         Message = zh_exported @ '' 5 '' @ zh_rows\<rparr>
   \<and> percent_of 7 20 = 35"
proof -
  from C8_percentage_invariant [OF witness_lines_in_range witness_lines_run]
  have "percent_of 7 20 = 35" by simp
  with witness_lines_run show ?thesis by simp
qed

text \<open>
  The lines left out above: when \<^verbatim>\<open>strconv.Atoi\<close> fails for the total only, the completed
  count is stored and the total and the percentage are not, so the percentage (30) is no
  longer the quotient of the counters (5 of 10 would be 50).
\<close>

lemma total_overflow_leaves_stale_percentage:
  "total_overflows_alone ''Processing table: B (5/99999999999999999999)''"
  "parse_all [''Processing table: A (3/10)'',
              ''Processing table: B (5/99999999999999999999)'']
     (Some ProgressInfo_zero) =
   Some \<lparr>CurrentStep = zh_processing @ ''table: B'', TotalSteps = 10, CompletedSteps = 5,
         Percentage = 30, ProcessedRows = 0, TotalRows = 0, Message = []\<rparr>"
  "percent_of 5 10 = 50"
  by code_simp+

section \<open>Properties of \<^verbatim>\<open>Execute\<close>\<close>



lemma buildCommandArgs_nonempty:
  "buildCommandArgs st migrationType options = Returns (Inr args) \<Longrightarrow> args \<noteq> []"
  by (auto simp: buildCommandArgs_def FileExists_def Let_def
      split: if_splits stat_result.splits)


text \<open>
  The function \<open>readOutput\<close> used in \<open>executeCommand\<close> is characterised by the number of lines:
  it has no result exactly when one stream has more lines than its channel takes, and
  otherwise yields every line of each stream, in order, and the progress model after all
  lines.
\<close>

lemma readOutput_characterised:
  "length oc \<le> chan_capacity \<Longrightarrow> length ec \<le> chan_capacity \<Longrightarrow>
   readOutput evs (oc, ec, progress) =
     (if length oc + length (lines_of Stdout evs) \<le> chan_capacity \<and>
         length ec + length (lines_of Stderr evs) \<le> chan_capacity
      then Some (oc @ map (\<lambda>l. l @ [CHR 0x0A]) (lines_of Stdout evs),
                 ec @ map (\<lambda>l. l @ [CHR 0x0A]) (lines_of Stderr evs),
                 parse_all (map snd evs) progress)
      else None)"
proof (induction evs arbitrary: oc ec progress)
  case Nil
  then show ?case by (simp add: lines_of_def)
next
  case (Cons ev evs)
  obtain str line where ev: "ev = (str, line)" by (cases ev)
  show ?case
  proof (cases str)
    case Stdout
    with ev Cons.prems Cons.IH [of "oc @ [line @ [CHR 0x0A]]" ec] show ?thesis
      by (auto simp: lines_of_def)
  next
    case Stderr
    with ev Cons.prems Cons.IH [of oc "ec @ [line @ [CHR 0x0A]]"] show ?thesis
      by (auto simp: lines_of_def)
  qed
qed

lemma readOutput_within_capacity:
  "(readOutput (scanned e) ([], [], progress) \<noteq> None) = within_capacity e"
  using readOutput_characterised [of "[]" "[]" "scanned e" progress]
  by (simp add: within_capacity_def)

lemma executeCommand_started:
  "args \<noteq> [] \<Longrightarrow> stdout_pipe env = None \<Longrightarrow> stderr_pipe env = None \<Longrightarrow> start env = None \<Longrightarrow>
   executeCommand env args opts result =
     (case readOutput (scanned env) ([], [], Progress result) of
        None \<Rightarrow> Blocked
      | Some (oc, ec, pr) \<Rightarrow>
          (case wait_for_command env opts of
             Some e \<Rightarrow>
               Returns (result\<lparr>Progress := pr, Output := concat oc, ErrorOutput := concat ec,
                               ExitCode := exit_code_of e\<rparr>, Some e)
           | None \<Rightarrow>
               Returns (result\<lparr>Progress := pr, Output := concat oc, ErrorOutput := concat ec,
                               ExitCode := 0\<rparr>, None)))"
  by (simp add: executeCommand_def Let_def split: option.splits prod.splits)


lemma wait_exit_code_nonzero: "wait_for_command env opts = Some e \<Longrightarrow> exit_code_of e \<noteq> 0"
  by (auto simp: wait_for_command_def cmd_Wait_def exit_code_of_def
      split: if_splits race_event.splits proc_exit.splits)

lemma Execute_started:
  assumes st: "process_started env mt opts"
    and ex: "Execute env mt opts = Returns (Some r, err)"
  shows "err = wait_for_command env opts \<and> Error r = err \<and>
         ExitCode r = (case err of None \<Rightarrow> 0 | Some e \<Rightarrow> exit_code_of e) \<and>
         Status r = (if err = None then StatusCompleted else StatusFailed)"
proof -
  from st obtain args where
    v: "validateOra2pgTool env = None" and
    b: "buildCommandArgs (config_stat env) mt opts = Returns (Inr args)" and
    p: "prepareExecutionEnvironment env opts = None" and
    pipes: "stdout_pipe env = None" "stderr_pipe env = None" "start env = None"
    by (auto simp: process_started_def split: outcome.splits sum.splits)
  from b have ne: "args \<noteq> []" by (rule buildCommandArgs_nonempty)
  note ec = executeCommand_started [OF ne pipes(1) pipes(2) pipes(3), of opts]
  from ex show ?thesis
    by (auto simp: Execute_def Let_def v b p ec split: option.splits prod.splits)
qed

lemma Execute_started_outcome:
  assumes st: "process_started e mt opts"
  shows "if within_capacity e
         then \<exists>r. Execute e mt opts = Returns (Some r, wait_for_command e opts)
         else Execute e mt opts = Blocked"
proof -
  from st obtain args where
    v: "validateOra2pgTool e = None" and
    b: "buildCommandArgs (config_stat e) mt opts = Returns (Inr args)" and
    p: "prepareExecutionEnvironment e opts = None" and
    pipes: "stdout_pipe e = None" "stderr_pipe e = None" "start e = None"
    by (auto simp: process_started_def split: outcome.splits sum.splits)
  from b have ne: "args \<noteq> []" by (rule buildCommandArgs_nonempty)
  note ec = executeCommand_started [OF ne pipes(1) pipes(2) pipes(3), of opts]
  show ?thesis
  proof (cases "readOutput (scanned e) ([], [], Some ProgressInfo_zero)")
    case None
    with readOutput_within_capacity [of e "Some ProgressInfo_zero"]
    have "\<not> within_capacity e" by simp
    with None show ?thesis
      by (simp add: Execute_def Let_def v b p ec)
  next
    case (Some res)
    with readOutput_within_capacity [of e "Some ProgressInfo_zero"]
    have "within_capacity e" by simp
    with Some show ?thesis
      by (auto simp: Execute_def Let_def v b p ec split: option.splits prod.splits)
  qed
qed

text \<open>
  Claim C2. When the child process was started and neither stream delivers more than 100
  lines, \<^verbatim>\<open>Execute\<close> returns a result, and for that result: the status is Completed exactly
  when the exit code is 0 and Failed otherwise; a timeout and a cancellation give exit
  code -1 and status Failed (never Cancelled), with the triggering error returned and
  attached; a clean exit gives exit code 0; an exit with a non-zero status gives that
  status as exit code; a process ended by a signal gives -1. With more than 100 lines on a
  stream \<^verbatim>\<open>Execute\<close> does not return (claim C1), so there is no result.
\<close>

theorem C2_exit_code_and_status:
  assumes "process_started env mt opts"
  shows "if within_capacity env
     then \<exists>r err. Execute env mt opts = Returns (Some r, err)
       \<and> ((Status r = StatusCompleted) = (ExitCode r = 0))
       \<and> (ExitCode r \<noteq> 0 \<longrightarrow> Status r = StatusFailed)
       \<and> (Timeout opts > 0 \<longrightarrow> race env = TimerFired \<longrightarrow>
            ExitCode r = - 1 \<and> Status r = StatusFailed \<and> err = Some ExecutionTimedOut \<and>
            Error r = err)
       \<and> (\<forall>c. Timeout opts > 0 \<longrightarrow> race env = CtxDone c \<longrightarrow>
            ExitCode r = - 1 \<and> Status r = StatusFailed \<and> err = Some (ContextError c) \<and>
            Error r = err)
       \<and> (Timeout opts \<le> 0 \<or> race env = ProcessExited \<longrightarrow>
            (exit env = Exited 0 \<longrightarrow>
               ExitCode r = 0 \<and> Status r = StatusCompleted \<and> err = None)
          \<and> (\<forall>n. exit env = Exited n \<longrightarrow> n \<noteq> 0 \<longrightarrow>
               ExitCode r = int n \<and> Status r = StatusFailed \<and>
               err = Some (ExitError (int n)))
          \<and> (exit env = Signaled \<longrightarrow> ExitCode r = - 1 \<and> Status r = StatusFailed)
          \<and> (\<forall>e. exit env = WaitFailed e \<longrightarrow> ExitCode r = - 1 \<and> Status r = StatusFailed))
     else Execute env mt opts = Blocked"
proof (cases "within_capacity env")
  case False
  with Execute_started_outcome [OF assms] show ?thesis by simp
next
  case True
  with Execute_started_outcome [OF assms] obtain r where
    run: "Execute env mt opts = Returns (Some r, wait_for_command env opts)"
    by auto
  define err where "err = wait_for_command env opts"
  note E = Execute_started [OF assms run [folded err_def]]
  have iff: "(Status r = StatusCompleted) = (ExitCode r = 0)"
    using E wait_exit_code_nonzero [of env opts] by (auto simp: err_def split: option.splits)
  have failed: "ExitCode r \<noteq> 0 \<longrightarrow> Status r = StatusFailed"
    using E by (auto split: option.splits)
  have timer: "Timeout opts > 0 \<longrightarrow> race env = TimerFired \<longrightarrow>
          ExitCode r = - 1 \<and> Status r = StatusFailed \<and> err = Some ExecutionTimedOut \<and>
          Error r = err"
    using E by (auto simp: wait_for_command_def exit_code_of_def)
  have ctx: "\<forall>c. Timeout opts > 0 \<longrightarrow> race env = CtxDone c \<longrightarrow>
          ExitCode r = - 1 \<and> Status r = StatusFailed \<and> err = Some (ContextError c) \<and>
          Error r = err"
    using E by (auto simp: wait_for_command_def exit_code_of_def)
  have w: "Timeout opts \<le> 0 \<or> race env = ProcessExited \<Longrightarrow>
           wait_for_command env opts = cmd_Wait (exit env)"
    by (auto simp: wait_for_command_def)
  have natural: "Timeout opts \<le> 0 \<or> race env = ProcessExited \<longrightarrow>
          (exit env = Exited 0 \<longrightarrow>
             ExitCode r = 0 \<and> Status r = StatusCompleted \<and> err = None)
        \<and> (\<forall>n. exit env = Exited n \<longrightarrow> n \<noteq> 0 \<longrightarrow>
             ExitCode r = int n \<and> Status r = StatusFailed \<and> err = Some (ExitError (int n)))
        \<and> (exit env = Signaled \<longrightarrow> ExitCode r = - 1 \<and> Status r = StatusFailed)
        \<and> (\<forall>e. exit env = WaitFailed e \<longrightarrow> ExitCode r = - 1 \<and> Status r = StatusFailed)"
    using E w by (auto simp: cmd_Wait_def exit_code_of_def)
  from run [folded err_def] iff failed timer ctx natural True show ?thesis
    by (simp only: if_True) blast
qed


text \<open>
  The four failure paths named in the claim do return: the tool is not found, the
  arguments cannot be built, the directories cannot be prepared, the process cannot be
  started.
\<close>

lemma Execute_failure_paths_return:
  "\<not> lookPath_found e \<Longrightarrow>
     \<exists>r. Execute e mt opts = Returns (Some r, Some ORA2PG_NOT_FOUND)"
  "lookPath_found e \<Longrightarrow> buildCommandArgs (config_stat e) mt opts = Returns (Inl err) \<Longrightarrow>
     \<exists>r. Execute e mt opts = Returns (Some r, Some err)"
  "lookPath_found e \<Longrightarrow> buildCommandArgs (config_stat e) mt opts = Returns (Inr args) \<Longrightarrow>
   prepareExecutionEnvironment e opts = Some err \<Longrightarrow>
     \<exists>r. Execute e mt opts = Returns (Some r, Some err)"
  "lookPath_found e \<Longrightarrow> buildCommandArgs (config_stat e) mt opts = Returns (Inr args) \<Longrightarrow>
   prepareExecutionEnvironment e opts = None \<Longrightarrow>
   stdout_pipe e = None \<Longrightarrow> stderr_pipe e = None \<Longrightarrow> start e = Some oe \<Longrightarrow>
     \<exists>r. Execute e mt opts = Returns (Some r, Some (StartFailed oe))"
  by (auto simp: Execute_def validateOra2pgTool_def executeCommand_def Let_def
      dest: buildCommandArgs_nonempty)

lemma example_runs_started:
  "process_started example_env ''TABLE'' example_options"
  "process_started (example_env\<lparr>exit := Exited 3\<rparr>) ''TABLE'' example_options"
  "process_started (example_env\<lparr>race := TimerFired\<rparr>) ''TABLE'' example_options"
  "process_started (example_env\<lparr>race := CtxDone Canceled\<rparr>) ''TABLE'' example_options"
  by code_simp+

lemma example_runs_within_capacity:
  "within_capacity example_env"
  "within_capacity (example_env\<lparr>exit := Exited 3\<rparr>)"
  "within_capacity (example_env\<lparr>race := TimerFired\<rparr>)"
  "within_capacity (example_env\<lparr>race := CtxDone Canceled\<rparr>)"
  by code_simp+

theorem C2_exit_code_and_status_witness:
  "(\<exists>r. Execute example_env ''TABLE'' example_options = Returns (Some r, None)
        \<and> ExitCode r = 0 \<and> Status r = StatusCompleted)
   \<and> (\<exists>r. Execute (example_env\<lparr>exit := Exited 3\<rparr>) ''TABLE'' example_options =
              Returns (Some r, Some (ExitError 3))
        \<and> ExitCode r = 3 \<and> Status r = StatusFailed)
   \<and> (\<exists>r. Execute (example_env\<lparr>race := TimerFired\<rparr>) ''TABLE'' example_options =
              Returns (Some r, Some ExecutionTimedOut)
        \<and> ExitCode r = - 1 \<and> Status r = StatusFailed \<and> Error r = Some ExecutionTimedOut)
   \<and> (\<exists>r. Execute (example_env\<lparr>race := CtxDone Canceled\<rparr>) ''TABLE'' example_options =
              Returns (Some r, Some (ContextError Canceled))
        \<and> ExitCode r = - 1 \<and> Status r = StatusFailed
        \<and> Error r = Some (ContextError Canceled))"
proof (intro conjI)
  show "\<exists>r. Execute example_env ''TABLE'' example_options = Returns (Some r, None)
        \<and> ExitCode r = 0 \<and> Status r = StatusCompleted"
    using C2_exit_code_and_status [OF example_runs_started(1)] example_runs_within_capacity(1)
    by (auto simp: example_env_def example_options_def)
next
  show "\<exists>r. Execute (example_env\<lparr>exit := Exited 3\<rparr>) ''TABLE'' example_options =
              Returns (Some r, Some (ExitError 3))
        \<and> ExitCode r = 3 \<and> Status r = StatusFailed"
    using C2_exit_code_and_status [OF example_runs_started(2)] example_runs_within_capacity(2)
    by (auto simp: example_env_def example_options_def)
next
  show "\<exists>r. Execute (example_env\<lparr>race := TimerFired\<rparr>) ''TABLE'' example_options =
              Returns (Some r, Some ExecutionTimedOut)
        \<and> ExitCode r = - 1 \<and> Status r = StatusFailed \<and> Error r = Some ExecutionTimedOut"
    using C2_exit_code_and_status [OF example_runs_started(3)] example_runs_within_capacity(3)
    by (auto simp: example_env_def example_options_def)
next
  show "\<exists>r. Execute (example_env\<lparr>race := CtxDone Canceled\<rparr>) ''TABLE'' example_options =
              Returns (Some r, Some (ContextError Canceled))
        \<and> ExitCode r = - 1 \<and> Status r = StatusFailed
        \<and> Error r = Some (ContextError Canceled)"
    using C2_exit_code_and_status [OF example_runs_started(4)] example_runs_within_capacity(4)
    by (auto simp: example_env_def example_options_def)
qed



section \<open>Properties of the goroutines of \<^verbatim>\<open>executeCommand\<close>\<close>

lemma stderr_stuck_step:
  assumes "chan_capacity < n" and "stderr_stuck n s" and "pump_step s s'"
  shows "stderr_stuck n s'"
  using assms(3,1,2)
  by (induction rule: pump_step.induct) (auto simp: stderr_stuck_def)

lemma stdout_stuck_step:
  assumes "chan_capacity < n" and "stdout_stuck n s" and "pump_step s s'"
  shows "stdout_stuck n s'"
  using assms(3,1,2)
  by (induction rule: pump_step.induct) (auto simp: stdout_stuck_def)

lemma stderr_stuck_reachable:
  assumes "pump_step\<^sup>*\<^sup>* s s'" and "chan_capacity < n" and "stderr_stuck n s"
  shows "stderr_stuck n s'"
  using assms
proof (induction rule: rtranclp_induct)
  case base
  then show ?case by simp
next
  case (step y z)
  then show ?case by (blast intro: stderr_stuck_step)
qed

lemma stdout_stuck_reachable:
  assumes "pump_step\<^sup>*\<^sup>* s s'" and "chan_capacity < n" and "stdout_stuck n s"
  shows "stdout_stuck n s'"
  using assms
proof (induction rule: rtranclp_induct)
  case base
  then show ?case by simp
next
  case (step y z)
  then show ?case by (blast intro: stdout_stuck_step)
qed

lemma stderr_flood_never_collected:
  assumes "chan_capacity < length errs"
    and "pump_step\<^sup>*\<^sup>* (pump_init outs errs progress) s"
  shows "main s \<noteq> Collected"
proof -
  have "stderr_stuck (length errs) (pump_init outs errs progress)"
    by (simp add: stderr_stuck_def pump_init_def)
  with assms have "stderr_stuck (length errs) s"
    by (blast intro: stderr_stuck_reachable)
  then have "received (main s) \<le> 1"
    by (simp add: stderr_stuck_def split: if_splits)
  then show ?thesis by auto
qed

lemma stdout_flood_never_collected:
  assumes "chan_capacity < length outs"
    and "pump_step\<^sup>*\<^sup>* (pump_init outs errs progress) s"
  shows "main s \<noteq> Collected"
proof -
  have "stdout_stuck (length outs) (pump_init outs errs progress)"
    by (simp add: stdout_stuck_def pump_init_def)
  with assms have "stdout_stuck (length outs) s"
    by (blast intro: stdout_stuck_reachable)
  then have "received (main s) \<le> 1"
    by (simp add: stdout_stuck_def split: if_splits)
  then show ?thesis by auto
qed

lemma flood_blocks_Execute:
  "Execute (example_env\<lparr>scanned := replicate 101 (Stderr, ''x'')\<rparr>) ''TABLE'' example_options
     = Blocked"
  by code_simp

text \<open>
  Claim C1 fails on the code. With 101 lines on one stream and none on the other, no
  interleaving of the goroutines of \<^verbatim>\<open>executeCommand\<close> reaches the point where the output
  is collected: the reader of the flooded stream blocks on its 101st send, because the
  channel of capacity 100 is only received from after both done signals; \<^verbatim>\<open>Execute\<close>
  never returns. The captured output is accumulated through that channel, not beside it.
\<close>

theorem C1_one_stream_flood_never_returns:
  "(\<forall>s. \<not> (pump_step\<^sup>*\<^sup>* (pump_init [] (replicate 101 ''x'') (Some ProgressInfo_zero)) s
            \<and> main s = Collected))
   \<and> (\<forall>s. \<not> (pump_step\<^sup>*\<^sup>* (pump_init (replicate 101 ''x'') [] (Some ProgressInfo_zero)) s
            \<and> main s = Collected))
   \<and> Execute (example_env\<lparr>scanned := replicate 101 (Stderr, ''x'')\<rparr>) ''TABLE''
        example_options = Blocked"
proof (intro conjI allI)
  fix s
  show "\<not> (pump_step\<^sup>*\<^sup>* (pump_init [] (replicate 101 ''x'') (Some ProgressInfo_zero)) s
            \<and> main s = Collected)"
    using stderr_flood_never_collected [of "replicate 101 ''x''" "[]" "Some ProgressInfo_zero" s]
    by (auto simp: chan_capacity_def)
next
  fix s
  show "\<not> (pump_step\<^sup>*\<^sup>* (pump_init (replicate 101 ''x'') [] (Some ProgressInfo_zero)) s
            \<and> main s = Collected)"
    using stdout_flood_never_collected [of "replicate 101 ''x''" "[]" "Some ProgressInfo_zero" s]
    by (auto simp: chan_capacity_def)
next
  show "Execute (example_env\<lparr>scanned := replicate 101 (Stderr, ''x'')\<rparr>) ''TABLE''
        example_options = Blocked"
    by (rule flood_blocks_Execute)
qed

text \<open>
  For comparison: when neither stream has more than 100 lines, the goroutines can run to
  the end, and the collected output is every line of each stream, in order, each with its
  newline.
\<close>

lemma send_all_stdout:
  "out_pending s = ls \<Longrightarrow> length (out_chan s) + length ls \<le> chan_capacity \<Longrightarrow>
   pump_step\<^sup>*\<^sup>* s
     (s\<lparr>out_pending := [], out_chan := out_chan s @ map (\<lambda>l. l @ [CHR 0x0A]) ls,
        shared_progress := parse_all ls (shared_progress s)\<rparr>)"
proof (induction ls arbitrary: s)
  case Nil
  then show ?case by (cases s) simp
next
  case (Cons l ls)
  let ?s1 = "s\<lparr>out_pending := ls, out_chan := out_chan s @ [l @ [CHR 0x0A]],
                shared_progress := parseProgress l (shared_progress s)\<rparr>"
  from Cons.prems have "pump_step s ?s1"
    by (intro pump_step.stdout_send) auto
  moreover from Cons.prems have "pump_step\<^sup>*\<^sup>* ?s1
     (?s1\<lparr>out_pending := [], out_chan := out_chan ?s1 @ map (\<lambda>l. l @ [CHR 0x0A]) ls,
        shared_progress := parse_all ls (shared_progress ?s1)\<rparr>)"
    by (intro Cons.IH) auto
  ultimately show ?case by (simp add: converse_rtranclp_into_rtranclp)
qed

lemma send_all_stderr:
  "err_pending s = ls \<Longrightarrow> length (err_chan s) + length ls \<le> chan_capacity \<Longrightarrow>
   pump_step\<^sup>*\<^sup>* s
     (s\<lparr>err_pending := [], err_chan := err_chan s @ map (\<lambda>l. l @ [CHR 0x0A]) ls,
        shared_progress := parse_all ls (shared_progress s)\<rparr>)"
proof (induction ls arbitrary: s)
  case Nil
  then show ?case by (cases s) simp
next
  case (Cons l ls)
  let ?s1 = "s\<lparr>err_pending := ls, err_chan := err_chan s @ [l @ [CHR 0x0A]],
                shared_progress := parseProgress l (shared_progress s)\<rparr>"
  from Cons.prems have "pump_step s ?s1"
    by (intro pump_step.stderr_send) auto
  moreover from Cons.prems have "pump_step\<^sup>*\<^sup>* ?s1
     (?s1\<lparr>err_pending := [], err_chan := err_chan ?s1 @ map (\<lambda>l. l @ [CHR 0x0A]) ls,
        shared_progress := parse_all ls (shared_progress ?s1)\<rparr>)"
    by (intro Cons.IH) auto
  ultimately show ?case by (simp add: converse_rtranclp_into_rtranclp)
qed

lemma small_outputs_are_collected:
  assumes "length outs \<le> chan_capacity" and "length errs \<le> chan_capacity"
  shows "\<exists>s. pump_step\<^sup>*\<^sup>* (pump_init outs errs progress) s \<and> main s = Collected \<and>
             collected s = Some (concat (map (\<lambda>l. l @ [CHR 0x0A]) outs),
                                 concat (map (\<lambda>l. l @ [CHR 0x0A]) errs))"
proof -
  let ?nl = "\<lambda>l. l @ [CHR 0x0A]"
  let ?s0 = "pump_init outs errs progress"
  let ?s1 = "?s0\<lparr>out_pending := [], out_chan := map ?nl outs,
                  shared_progress := parse_all outs progress\<rparr>"
  let ?s2 = "?s1\<lparr>err_pending := [], err_chan := map ?nl errs,
                  shared_progress := parse_all errs (parse_all outs progress)\<rparr>"
  let ?s3 = "?s2\<lparr>out_done := True, doneChan := Suc 0\<rparr>"
  let ?s4 = "?s3\<lparr>err_done := True, doneChan := Suc (Suc 0)\<rparr>"
  let ?s5 = "?s4\<lparr>main := AwaitFirstDone\<rparr>"
  let ?s6 = "?s5\<lparr>main := AwaitSecondDone, doneChan := Suc 0\<rparr>"
  let ?s7 = "?s6\<lparr>main := Collected, doneChan := 0,
                  collected := Some (concat (map ?nl outs), concat (map ?nl errs))\<rparr>"
  have 1: "pump_step\<^sup>*\<^sup>* ?s0 ?s1"
    using send_all_stdout [of ?s0 outs] assms(1) by (simp add: pump_init_def)
  have 2: "pump_step\<^sup>*\<^sup>* ?s1 ?s2"
    using send_all_stderr [of ?s1 errs] assms(2) by (simp add: pump_init_def)
  have 3: "pump_step ?s2 ?s3"
    using pump_step.stdout_done [of ?s2] by (simp add: pump_init_def)
  have 4: "pump_step ?s3 ?s4"
    using pump_step.stderr_done [of ?s3] by (simp add: pump_init_def)
  have 5: "pump_step ?s4 ?s5"
    using pump_step.command_waited [of ?s4] by (simp add: pump_init_def)
  have 6: "pump_step ?s5 ?s6"
    using pump_step.first_done [of ?s5 "Suc 0"] by (simp add: pump_init_def)
  have 7: "pump_step ?s6 ?s7"
    using pump_step.second_done [of ?s6 0] by (simp add: pump_init_def)
  from 1 2 3 4 5 6 7 have "pump_step\<^sup>*\<^sup>* ?s0 ?s7"
    by (meson rtranclp.rtrancl_into_rtrancl rtranclp_trans)
  moreover have "main ?s7 = Collected" by simp
  moreover have "collected ?s7 = Some (concat (map ?nl outs), concat (map ?nl errs))" by simp
  ultimately show ?thesis by blast
qed

section \<open>Properties of the progress tracker\<close>

lemma not_running_no_op:
  "\<not> isRunning pt \<Longrightarrow>
   UpdateStep step message now pt = Returns pt \<and> UpdateProgress pct details now pt = Returns pt"
  by (simp add: UpdateStep_def UpdateProgress_def)

text \<open>
  Claim C5 fails on the code for two of the four mutators. On a tracker that was started
  and stopped, \<^verbatim>\<open>UpdateStep\<close> and \<^verbatim>\<open>UpdateProgress\<close> return without a change (they check
  \<^verbatim>\<open>isRunning\<close>), but \<^verbatim>\<open>SetMessage\<close> stores the message and the time, and \<^verbatim>\<open>Complete\<close>
  stores the step count, the percentage, the message and the time: neither checks the
  flag.
\<close>

theorem C5_set_message_and_complete_after_stop:
  "Stop (Start ''migrate'' 3 10 10 NewProgressTracker) = Returns stopped_tracker
   \<and> isRunning stopped_tracker = False
   \<and> UpdateStep 2 ''late'' 20 stopped_tracker = Returns stopped_tracker
   \<and> UpdateProgress 50 ''late'' 20 stopped_tracker = Returns stopped_tracker
   \<and> SetMessage ''late'' 20 stopped_tracker =
       stopped_tracker\<lparr>currentMessage := ''late'', lastUpdateTime := 20\<rparr>
   \<and> SetMessage ''late'' 20 stopped_tracker \<noteq> stopped_tracker
   \<and> Complete ''done'' 20 stopped_tracker =
       stopped_tracker\<lparr>currentStep := 3, percentage := 100, currentMessage := ''done'',
                        lastUpdateTime := 20\<rparr>
   \<and> Complete ''done'' 20 stopped_tracker \<noteq> stopped_tracker"
  by (simp add: Stop_def Start_def NewProgressTracker_def stopped_tracker_def
      UpdateStep_def UpdateProgress_def SetMessage_def Complete_def)

section \<open>Properties of the orchestrator\<close>

lemma Execute_result_not_nil:
  "Execute e mt opts = Returns (res, err) \<Longrightarrow> res \<noteq> None"
  by (auto simp: Execute_def Let_def
      split: option.splits outcome.splits sum.splits prod.splits)

lemma UpdateStep_usable:
  "tracker_usable pt \<Longrightarrow>
   \<exists>pt1. UpdateStep step message now pt = Returns pt1 \<and> tracker_usable pt1"
  by (auto simp: UpdateStep_def try_send_def tracker_usable_def Let_def)

lemma UpdateProgress_usable:
  "tracker_usable pt \<Longrightarrow>
   \<exists>pt1. UpdateProgress pct details now pt = Returns pt1 \<and> tracker_usable pt1"
  by (auto simp: UpdateProgress_def try_send_def tracker_usable_def Let_def)

lemma run_steps_Cons_Returns:
  assumes "run_steps cfg renv i (mt # rest) (results, st, pt) = Returns out"
  shows "(\<exists>c. ctx_done (steps renv i) = Some c \<and>
            out = ((results, Some (ContextError c)), st\<lparr>IsCancelled := True\<rparr>, pt))
       \<or> (ctx_done (steps renv i) = None \<and>
          (\<exists>result e st2 pt2.
              executeSingleMigration cfg renv (steps renv i) mt = Returns (result, e) \<and>
              run_steps cfg renv (Suc i) rest (results @ [result], st2, pt2) = Returns out))"
  using assms
  by (auto simp: Let_def split: option.splits outcome.splits prod.splits)

lemma run_steps_returns:
  "run_steps cfg renv i types (results, st, pt) = Returns ((results', err), st', pt') \<Longrightarrow>
   \<exists>new. results' = results @ new \<and> length new \<le> length types \<and>
     (\<forall>j<length new. ctx_done (steps renv (i + j)) = None \<and>
        (\<exists>e. executeSingleMigration cfg renv (steps renv (i + j)) (types ! j) =
               Returns (new ! j, e))) \<and>
     (length new = length types \<longrightarrow> err = None) \<and>
     (length new < length types \<longrightarrow>
        (\<exists>c. ctx_done (steps renv (i + length new)) = Some c \<and> err = Some (ContextError c)))"
proof (induction types arbitrary: i results st pt)
  case Nil
  then show ?case by simp
next
  case (Cons mt rest)
  from run_steps_Cons_Returns [OF Cons.prems]
  show ?case
  proof (elim disjE exE conjE)
    fix c
    assume "ctx_done (steps renv i) = Some c"
      and "((results', err), st', pt') =
           ((results, Some (ContextError c)), st\<lparr>IsCancelled := True\<rparr>, pt)"
    then show ?thesis
      by (intro exI [of _ "[]"]) simp
  next
    fix result e st2 pt2
    assume nc: "ctx_done (steps renv i) = None"
      and ex: "executeSingleMigration cfg renv (steps renv i) mt = Returns (result, e)"
      and rec: "run_steps cfg renv (Suc i) rest (results @ [result], st2, pt2) =
                Returns ((results', err), st', pt')"
    from Cons.IH [OF rec] obtain new where
      r: "results' = (results @ [result]) @ new" and
      len: "length new \<le> length rest" and
      each: "\<forall>j<length new. ctx_done (steps renv (Suc i + j)) = None \<and>
               (\<exists>e. executeSingleMigration cfg renv (steps renv (Suc i + j)) (rest ! j) =
                      Returns (new ! j, e))" and
      full: "length new = length rest \<longrightarrow> err = None" and
      part: "length new < length rest \<longrightarrow>
               (\<exists>c. ctx_done (steps renv (Suc i + length new)) = Some c \<and>
                    err = Some (ContextError c))"
      by blast
    have each': "\<forall>j<length (result # new). ctx_done (steps renv (i + j)) = None \<and>
               (\<exists>e. executeSingleMigration cfg renv (steps renv (i + j)) ((mt # rest) ! j) =
                      Returns ((result # new) ! j, e))"
    proof (intro allI impI)
      fix j
      assume j: "j < length (result # new)"
      show "ctx_done (steps renv (i + j)) = None \<and>
               (\<exists>e. executeSingleMigration cfg renv (steps renv (i + j)) ((mt # rest) ! j) =
                      Returns ((result # new) ! j, e))"
      proof (cases j)
        case 0
        with nc ex show ?thesis by auto
      next
        case (Suc j')
        with j each show ?thesis by auto
      qed
    qed
    show ?thesis
      using r len each' full part
      by (intro exI [of _ "result # new"]) auto
  qed
qed

lemma run_steps_total:
  "(\<forall>j<length types. ctx_done (steps renv (i + j)) = None) \<Longrightarrow>
   (\<forall>j<length types. \<exists>r e.
       executeSingleMigration cfg renv (steps renv (i + j)) (types ! j) = Returns (r, e)) \<Longrightarrow>
   tracker_usable pt \<Longrightarrow>
   \<exists>results' st' pt'.
     run_steps cfg renv i types (results, st, pt) = Returns ((results', None), st', pt')"
proof (induction types arbitrary: i results st pt)
  case Nil
  then show ?case by simp
next
  case (Cons mt rest)
  from Cons.prems(1) have nc: "ctx_done (steps renv i) = None"
    by (auto dest: spec [of _ 0])
  from Cons.prems(2) obtain res e where
    ex: "executeSingleMigration cfg renv (steps renv i) mt = Returns (res, e)"
    by (auto dest: spec [of _ 0])
  then have "res \<noteq> None"
    unfolding executeSingleMigration_def by (rule Execute_result_not_nil)
  then obtain r where res: "res = Some r" by auto
  from UpdateStep_usable [OF Cons.prems(3)] obtain pt1 where
    us: "UpdateStep (int i + 1) (step_message mt) (t_update (steps renv i)) pt = Returns pt1"
    and u1: "tracker_usable pt1"
    by blast
  have rest1: "\<forall>j<length rest. ctx_done (steps renv (Suc i + j)) = None"
    using Cons.prems(1) by (auto dest: spec [of _ "Suc j" for j])
  have rest2: "\<forall>j<length rest. \<exists>r e.
       executeSingleMigration cfg renv (steps renv (Suc i + j)) (rest ! j) = Returns (r, e)"
    using Cons.prems(2) by (auto dest: spec [of _ "Suc j" for j])
  show ?case
  proof (cases "Progress r")
    case None
    from Cons.IH [OF rest1 rest2 u1]
    show ?thesis
      using nc ex res us None by (simp add: Let_def)
  next
    case (Some pr)
    from UpdateProgress_usable [OF u1] obtain pt2 where
      up: "UpdateProgress (Percentage pr) (Message pr) (t_progress (steps renv i)) pt1 =
           Returns pt2"
      and u2: "tracker_usable pt2"
      by blast
    from Cons.IH [OF rest1 rest2 u2]
    show ?thesis
      using nc ex res us Some up by (simp add: Let_def)
  qed
qed






text \<open>
  When \<^verbatim>\<open>os.Stat\<close> of the config file does not fail with an error other than "does not
  exist" and neither stream delivers more than 100 lines, \<^verbatim>\<open>Execute\<close> returns.
\<close>

lemma buildCommandArgs_returns:
  "st \<noteq> StatError \<Longrightarrow> \<exists>b. buildCommandArgs st mt opts = Returns b"
  by (cases st) (auto simp: buildCommandArgs_def FileExists_def Let_def)

lemma executeCommand_returns:
  assumes "args \<noteq> []" and "within_capacity e"
  shows "\<exists>x. executeCommand e args opts result = Returns x"
proof -
  from assms(2) readOutput_within_capacity [of e "Progress result"]
  obtain res where "readOutput (scanned e) ([], [], Progress result) = Some res"
    by auto
  with assms(1) show ?thesis
    by (cases res) (auto simp: executeCommand_def Let_def split: option.splits)
qed

lemma Execute_returns:
  assumes "config_stat e \<noteq> StatError" and "within_capacity e"
  shows "\<exists>r err. Execute e mt opts = Returns (r, err)"
proof (cases "validateOra2pgTool e")
  case (Some err)
  then show ?thesis by (simp add: Execute_def Let_def)
next
  case v: None
  from buildCommandArgs_returns [OF assms(1)] obtain b where
    b: "buildCommandArgs (config_stat e) mt opts = Returns b"
    by blast
  show ?thesis
  proof (cases b)
    case (Inl err)
    with v b show ?thesis by (simp add: Execute_def Let_def)
  next
    case (Inr args)
    with b have ne: "args \<noteq> []" by (auto dest: buildCommandArgs_nonempty)
    show ?thesis
    proof (cases "prepareExecutionEnvironment e opts")
      case (Some err)
      with v b Inr show ?thesis by (simp add: Execute_def Let_def)
    next
      case None
      from executeCommand_returns [OF ne assms(2)] obtain x where
        "executeCommand e args opts
           \<lparr>Status = StatusRunning, StartTime = t_start e, EndTime = 0, Duration = 0,
              ExitCode = 0, Output = [], ErrorOutput = [],
              Progress = Some ProgressInfo_zero, Error = None\<rparr> = Returns x"
        by blast
      with v b Inr None show ?thesis
        by (cases x) (auto simp: Execute_def Let_def split: option.splits)
    qed
  qed
qed

text \<open>
  Claim C4, as stated, fails: when the output directory cannot be created, the run of
  three steps returns no result at all although the context is never cancelled.
\<close>

theorem C4_failed_preparation_counterexample:
  "ctx_done (steps example_run_unwritable 0) = None
   \<and> ctx_done (steps example_run_unwritable 1) = None
   \<and> ctx_done (steps example_run_unwritable 2) = None
   \<and> ExecuteWithProgress example_config example_run_unwritable example_types
       (example_state, example_tracker) =
     Returns (([], Some (CreateFailed ''output'' (MkdirFailed ''output'' ''permission denied''))),
              example_state\<lparr>ms_TotalSteps := 3, ms_StartTime := 999,
                             ms_LastUpdateTime := 999\<rparr>,
              example_tracker)"
  by (simp add: ExecuteWithProgress_def prepareEnvironment_def EnsureDir_def
      example_run_unwritable_def example_run_def example_config_def example_state_def
      example_step_def example_types_def)

text \<open>
  Claim C4, amended. For every step list of length \<open>n\<close> that \<^verbatim>\<open>ExecuteWithProgress\<close> runs
  without cancellation after its environment was prepared (when the preparation fails no
  result is returned), in an environment in which no call hangs or panics:
  \<^verbatim>\<open>GenerateConfigFile\<close> returns, \<^verbatim>\<open>os.Stat\<close> of a step's config file does not fail with an
  error other than "does not exist", no stream of a step delivers more than 100 lines, and
  the tracker can take updates. Then \<^verbatim>\<open>ExecuteWithProgress\<close> returns with a nil error and
  exactly \<open>n\<close> results, one per step in the order of the steps: result \<open>i\<close> is what
  \<^verbatim>\<open>Execute\<close> returned for step \<open>i\<close>, whether it succeeded or failed. No failure of a step
  ends the loop. In the run of three steps whose second child exits with status 1, three
  results are returned, with statuses Completed, Failed, Completed.
\<close>

theorem C4_one_result_per_step:
  assumes "prepareEnvironment cfg renv = None"
    and "\<exists>warning. GenerateConfigFile renv = Returns warning"
    and "\<forall>i<length types. ctx_done (steps renv i) = None"
    and "\<forall>i<length types. config_stat (exec (steps renv i)) \<noteq> StatError \<and>
                           within_capacity (exec (steps renv i))"
    and "tracker_usable pt"
  shows "\<exists>results st' pt'.
           ExecuteWithProgress cfg renv types (st, pt) = Returns ((results, None), st', pt') \<and>
           length results = length types \<and>
           (\<forall>i<length types. \<exists>e.
              executeSingleMigration cfg renv (steps renv i) (types ! i) =
                Returns (results ! i, e))"
proof -
  let ?st0 = "st\<lparr>ms_TotalSteps := int (length types), ms_CompletedSteps := 0,
                  ms_StartTime := t_begin renv, ms_LastUpdateTime := t_begin2 renv,
                  IsCompleted := False, IsCancelled := False\<rparr>"
  have returns: "\<forall>i<length types. \<exists>r e.
           executeSingleMigration cfg renv (steps renv i) (types ! i) = Returns (r, e)"
    using assms(4) by (auto simp: executeSingleMigration_def intro: Execute_returns)
  from run_steps_total [of types renv 0 cfg pt "[]" ?st0] assms(3,5) returns
  obtain results st1 pt1 where
    run: "run_steps cfg renv 0 types ([], ?st0, pt) = Returns ((results, None), st1, pt1)"
    by auto
  from run_steps_returns [OF run] assms(3)
  have len: "length results = length types"
    and each: "\<forall>j<length results.
             (\<exists>e. executeSingleMigration cfg renv (steps renv j) (types ! j) =
                    Returns (results ! j, e))"
    by (auto simp: le_less)
  from assms(2) obtain warning where "GenerateConfigFile renv = Returns warning"
    by blast
  with run assms(1)
  have "ExecuteWithProgress cfg renv types (st, pt) =
          Returns ((results, None), st1\<lparr>IsCompleted := True\<rparr>, pt1)"
    by (simp add: ExecuteWithProgress_def Let_def)
  with len each show ?thesis by auto
qed

lemma example_run_prepared: "prepareEnvironment example_config example_run = None"
  by code_simp

lemma example_run_generates: "GenerateConfigFile example_run = Returns None"
  by code_simp

lemma example_run_not_cancelled: "ctx_done (steps example_run i) = None"
  by (simp add: example_run_def example_step_def)

lemma example_run_usable: "tracker_usable example_tracker"
  by (simp add: tracker_usable_def example_tracker_def Start_def NewProgressTracker_def)

lemma example_envs_within_capacity:
  "within_capacity example_env"
  "within_capacity (example_env\<lparr>exit := Exited 1\<rparr>)"
  by code_simp+

lemma example_run_steps_safe:
  "config_stat (exec (steps example_run i)) \<noteq> StatError \<and>
   within_capacity (exec (steps example_run i))"
  using example_envs_within_capacity
  by (simp add: example_run_def example_step_def example_env_def)

lemma example_run_statuses:
  "(case ExecuteWithProgress example_config example_run example_types
           (example_state, example_tracker) of
      Returns ((results, err), st', pt') \<Rightarrow>
        map (map_option Status) results =
          [Some StatusCompleted, Some StatusFailed, Some StatusCompleted] \<and>
        map (map_option ExitCode) results = [Some 0, Some 1, Some 0]
    | _ \<Rightarrow> False)"
  by code_simp

theorem C4_one_result_per_step_witness:
  "\<exists>results st' pt'.
     ExecuteWithProgress example_config example_run example_types
       (example_state, example_tracker) = Returns ((results, None), st', pt')
     \<and> length results = 3
     \<and> map (map_option Status) results =
         [Some StatusCompleted, Some StatusFailed, Some StatusCompleted]
     \<and> map (map_option ExitCode) results = [Some 0, Some 1, Some 0]"
proof -
  have gen: "\<exists>warning. GenerateConfigFile example_run = Returns warning"
    by (simp add: example_run_generates)
  have nc: "\<forall>i<length example_types. ctx_done (steps example_run i) = None"
    by (simp add: example_run_not_cancelled)
  have safe: "\<forall>i<length example_types.
                config_stat (exec (steps example_run i)) \<noteq> StatError \<and>
                within_capacity (exec (steps example_run i))"
    by (simp add: example_run_steps_safe)
  from C4_one_result_per_step
    [OF example_run_prepared gen nc safe example_run_usable, of example_state]
  obtain results st' pt' where
    run: "ExecuteWithProgress example_config example_run example_types
            (example_state, example_tracker) = Returns ((results, None), st', pt')"
    and len: "length results = length example_types"
    by blast
  from example_run_statuses run
  have "map (map_option Status) results =
          [Some StatusCompleted, Some StatusFailed, Some StatusCompleted] \<and>
        map (map_option ExitCode) results = [Some 0, Some 1, Some 0]"
    by simp
  with run len show ?thesis
    by (auto simp: example_types_def)
qed

end
